theory Spec2Isabelle
  imports Complex_Main
begin

section \<open>Common types\<close>

text \<open>
  Instants (\<open>Date\<close> values and their ISO strings) are milliseconds since the epoch.
  Every operation takes the instant \<open>now\<close> at which it runs; the several clock readings
  inside one call are taken to be that one instant, except in
  \<open>generateDashboardAccess_at\<close>, which tells the reading before the database insert
  from the one after it. Identifiers (\<open>bigint\<close>, \<open>number\<close>) are naturals; amounts
  are JavaScript numbers, modelled in the next section.
\<close>

type_synonym timestamp = int

text \<open>
  What a call can throw: a \<open>TypeError\<close> of the runtime (calling a property that is not
  a function), an \<open>Error\<close> thrown by the services with its message, and an error
  thrown by the Prisma client.
\<close>

datatype error = TypeError string | Error string | PrismaError string

type_synonym 'a result = "error + 'a"

text \<open>Template literals print an identifier in decimal.\<close>

fun show_nat :: "nat \<Rightarrow> string" where
  "show_nat n =
     (if n < 10 then [''0123456789'' ! n]
      else show_nat (n div 10) @ [''0123456789'' ! (n mod 10)])"

declare show_nat.simps [simp del]

section \<open>JavaScript numbers\<close>

text \<open>
  A JavaScript \<open>number\<close> is an IEEE 754 binary64 value. A finite one is taken as the
  rational it denotes (negative zero as zero: the two compare equal, and JSON prints
  both as \<open>0\<close>). \<open>rnd x\<close> is the double nearest to \<open>x\<close>, ties to even: \<open>x\<close> is
  scaled by the power of two that leaves 53 bits before the point (fewer below
  \<open>2 powi (- 1022)\<close>, where the spacing of the doubles stays \<open>2 powi (- 1074)\<close>),
  rounded to an integer and scaled back. \<open>flog2 x\<close> is the exponent of a positive
  \<open>x\<close>, the integer \<open>e\<close> with \<open>2 powi e \<le> x < 2 powi (e + 1)\<close>.
\<close>

fun ilog2 :: "nat \<Rightarrow> nat" where
  "ilog2 n = (if n < 2 then 0 else Suc (ilog2 (n div 2)))"

declare ilog2.simps [simp del]

definition flog2 :: "rat \<Rightarrow> int" where
  "flog2 x =
     (if 1 \<le> x then int (ilog2 (nat \<lfloor>x\<rfloor>))
      else - int (ilog2 (nat \<lceil>1 / x\<rceil> - 1)) - 1)"

text \<open>Rounding to the nearest integer, a tie to the even one.\<close>

definition rhe :: "rat \<Rightarrow> int" where
  "rhe x =
     (let f = \<lfloor>x\<rfloor>; d = x - of_int f
      in if d < 1 / 2 then f
         else if 1 / 2 < d then f + 1
         else if even f then f else f + 1)"

definition rnd :: "rat \<Rightarrow> rat" where
  "rnd x =
     (if x = 0 then 0
      else let q = max (flog2 \<bar>x\<bar>) (- 1022) - 52
           in of_int (rhe (x / 2 powi q)) * 2 powi q)"

text \<open>
  Every finite double lies below \<open>huge\<close> in absolute value, and is a multiple of
  \<open>tiny\<close>.
\<close>

definition huge :: rat where
  "huge = 2 ^ 1024"

definition tiny :: rat where
  "tiny = 2 powi (- 1074)"

typedef double = "{x :: rat. x \<in> range rnd \<and> \<bar>x\<bar> < huge}"
  morphisms rat_of_double double_of_rat
proof
  have "rnd 0 = 0" by (simp add: rnd_def)
  then have "(0 :: rat) \<in> range rnd" by (metis rangeI)
  then show "(0 :: rat) \<in> {x. x \<in> range rnd \<and> \<bar>x\<bar> < huge}" by (simp add: huge_def)
qed

text \<open>
  The values that a numeric property takes: a finite double, the two infinities,
  \<open>NaN\<close>, and \<open>null\<close>, which is what a number that is not finite reads as after a
  passage through JSON.
\<close>

datatype jsnum = Fin double | PInf | NInf | NaN | Null

text \<open>
  The number that the real \<open>x\<close> rounds to: a result that rounds to \<open>2 ^ 1024\<close> or
  beyond overflows to an infinity.
\<close>

definition number :: "rat \<Rightarrow> jsnum" where
  "number x =
     (let r = rnd x
      in if huge \<le> r then PInf
         else if r \<le> - huge then NInf
         else Fin (double_of_rat r))"

text \<open>The operators \<open>+\<close>, \<open>-\<close> and \<open><\<close> first turn \<open>null\<close> into zero.\<close>

fun to_number :: "jsnum \<Rightarrow> jsnum" where
  "to_number Null = number 0"
| "to_number x = x"

text \<open>\<open>a + b\<close> and \<open>a - b\<close> on numbers: the exact result, rounded.\<close>

definition js_add :: "jsnum \<Rightarrow> jsnum \<Rightarrow> jsnum" where
  "js_add a b =
     (case (to_number a, to_number b) of
        (NaN, _) \<Rightarrow> NaN
      | (_, NaN) \<Rightarrow> NaN
      | (PInf, NInf) \<Rightarrow> NaN
      | (NInf, PInf) \<Rightarrow> NaN
      | (PInf, _) \<Rightarrow> PInf
      | (_, PInf) \<Rightarrow> PInf
      | (NInf, _) \<Rightarrow> NInf
      | (_, NInf) \<Rightarrow> NInf
      | (Fin x, Fin y) \<Rightarrow> number (rat_of_double x + rat_of_double y)
      | _ \<Rightarrow> NaN)"

definition js_sub :: "jsnum \<Rightarrow> jsnum \<Rightarrow> jsnum" where
  "js_sub a b =
     (case (to_number a, to_number b) of
        (NaN, _) \<Rightarrow> NaN
      | (_, NaN) \<Rightarrow> NaN
      | (PInf, PInf) \<Rightarrow> NaN
      | (NInf, NInf) \<Rightarrow> NaN
      | (PInf, _) \<Rightarrow> PInf
      | (NInf, _) \<Rightarrow> NInf
      | (_, PInf) \<Rightarrow> NInf
      | (_, NInf) \<Rightarrow> PInf
      | (Fin x, Fin y) \<Rightarrow> number (rat_of_double x - rat_of_double y)
      | _ \<Rightarrow> NaN)"

text \<open>\<open>a < b\<close> and \<open>a <= b\<close> on numbers: false as soon as one side is \<open>NaN\<close>.\<close>

instantiation jsnum :: ord
begin

definition less_jsnum :: "jsnum \<Rightarrow> jsnum \<Rightarrow> bool" where
  "less_jsnum a b =
     (case (to_number a, to_number b) of
        (NaN, _) \<Rightarrow> False
      | (_, NaN) \<Rightarrow> False
      | (Fin x, Fin y) \<Rightarrow> rat_of_double x < rat_of_double y
      | (NInf, NInf) \<Rightarrow> False
      | (NInf, _) \<Rightarrow> True
      | (_, NInf) \<Rightarrow> False
      | (PInf, _) \<Rightarrow> False
      | (_, PInf) \<Rightarrow> True
      | _ \<Rightarrow> False)"

definition less_eq_jsnum :: "jsnum \<Rightarrow> jsnum \<Rightarrow> bool" where
  "less_eq_jsnum a b =
     (case (to_number a, to_number b) of
        (NaN, _) \<Rightarrow> False
      | (_, NaN) \<Rightarrow> False
      | (Fin x, Fin y) \<Rightarrow> rat_of_double x \<le> rat_of_double y
      | (NInf, _) \<Rightarrow> True
      | (_, PInf) \<Rightarrow> True
      | _ \<Rightarrow> False)"

instance ..

end

text \<open>The rational that a finite number denotes.\<close>

definition finite_value :: "jsnum \<Rightarrow> rat option" where
  "finite_value a = (case a of Fin d \<Rightarrow> Some (rat_of_double d) | _ \<Rightarrow> None)"

section \<open>Objects, JSON and the middleware of the Prisma client\<close>

text \<open>
  The values of the properties of a query result: \<open>null\<close>, booleans, numbers, strings,
  \<open>bigint\<close> identifiers, \<open>Date\<close> objects, arrays and plain objects.
\<close>

datatype js =
  JNull | JBool bool | JNumber jsnum | JString string | JBigInt nat | JDate timestamp
| JArray "js list" | JObject "(string \<times> js) list"

text \<open>
  The Prisma client of the repository (\<open>packages/config/src/runtime-urls.ts\<close>) passes
  every query result through \<open>convertBigInt\<close>: \<open>null\<close> stays, a \<open>bigint\<close> becomes its
  decimal string, an array is mapped, every other value of type \<open>object\<close> is rebuilt
  from its \<open>Object.entries\<close>, and the rest stays. A \<open>Date\<close> is of type \<open>object\<close> and
  has no entries of its own: it becomes the empty object.
\<close>

primrec convertBigInt :: "js \<Rightarrow> js" where
  "convertBigInt JNull = JNull"
| "convertBigInt (JBool b) = JBool b"
| "convertBigInt (JNumber n) = JNumber n"
| "convertBigInt (JString s) = JString s"
| "convertBigInt (JBigInt i) = JString (show_nat i)"
| "convertBigInt (JDate t) = JObject []"
| "convertBigInt (JArray xs) = JArray (map convertBigInt xs)"
| "convertBigInt (JObject kvs) = JObject (map (map_prod id convertBigInt) kvs)"

text \<open>Reading a property: \<open>None\<close> is \<open>undefined\<close>.\<close>

definition property :: "js \<Rightarrow> string \<Rightarrow> js option" where
  "property obj key = (case obj of JObject kvs \<Rightarrow> map_of kvs key | _ \<Rightarrow> None)"

text \<open>
  The call \<open>v.toISOString()\<close>: the instant of a \<open>Date\<close>, and a \<open>TypeError\<close> on
  every value that has no such method.
\<close>

definition toISOString :: "js option \<Rightarrow> timestamp result" where
  "toISOString v =
     (case v of
        Some (JDate t) \<Rightarrow> Inr t
      | None \<Rightarrow> Inl (TypeError ''Cannot read properties of undefined'')
      | Some JNull \<Rightarrow> Inl (TypeError ''Cannot read properties of null'')
      | Some _ \<Rightarrow> Inl (TypeError ''toISOString is not a function''))"

text \<open>
  The form in which an object carries its date properties: as \<open>Date\<close> objects, which
  is how the query engine delivers them; as ISO strings, which is how JSON text holds
  a \<open>Date\<close>; or as empty objects. \<open>converted_dates\<close> is what \<open>convertBigInt\<close> makes
  of them.
\<close>

datatype dates = DateObjects | IsoStrings | EmptyObjects

fun converted_dates :: "dates \<Rightarrow> dates" where
  "converted_dates DateObjects = EmptyObjects"
| "converted_dates d = d"

text \<open>
  What \<open>JSON.parse\<close> gives back for the text that \<open>JSON.stringify\<close> writes: a finite
  number is itself again, \<open>NaN\<close> and the infinities are written as \<open>null\<close>; a \<open>Date\<close>
  is written as its ISO string, an empty object as an empty object; strings, booleans
  and \<open>null\<close> are themselves again, and a property that is \<open>undefined\<close> is left out.
\<close>

fun json_number :: "jsnum \<Rightarrow> jsnum" where
  "json_number (Fin d) = Fin d"
| "json_number Null = Null"
| "json_number PInf = Null"
| "json_number NInf = Null"
| "json_number NaN = Null"

fun json_dates :: "dates \<Rightarrow> dates" where
  "json_dates DateObjects = IsoStrings"
| "json_dates d = d"

section \<open>Records of the durable store and of the cache\<close>

record Admin =
  admin_id :: nat
  admin_isActive :: bool

record User =
  user_id :: nat
  user_telegramId :: nat
  user_balance :: jsnum

record AdminDashboardToken =
  adt_adminId :: nat
  adt_token :: string
  adt_accessKey :: string
  adt_expiresAt :: timestamp
  adt_isUsed :: bool
  adt_createdAt :: timestamp
  adt_usedAt :: "timestamp option"
  adt_ipAddress :: "string option"

text \<open>
  The object that \<open>generateDashboardAccess\<close> mirrors into the cache; its dates are
  ISO strings.
\<close>

record TokenData =
  td_adminId :: nat
  td_accessKey :: string
  td_expiresAt :: timestamp
  td_isUsed :: bool
  td_createdAt :: timestamp
  td_ipAddress :: "string option"

record AdminDashboardAccess =
  dashboardUrl :: string
  ada_accessKey :: string
  ada_expiresAt :: timestamp

text \<open>
  What \<open>get\<close> returns for a pending-access key, as far as \<open>revokeAdminTokens\<close> looks
  at it: whether the parsed value is truthy (the stored texts \<open>0\<close>, \<open>false\<close>,
  \<open>null\<close> and \<open>""\<close> parse to falsy values, and for an empty text \<open>get\<close> returns
  null), and what the value prints as inside a template literal.
\<close>

record PendingValue =
  pv_truthy :: bool
  pv_string :: string

record SessionData =
  sd_sessionId :: string
  sd_adminId :: nat
  sd_accessToken :: string
  sd_refreshToken :: string
  sd_expiresAt :: timestamp
  sd_createdAt :: timestamp
  sd_lastActivity :: timestamp
  sd_ipAddress :: "string option"
  sd_userAgent :: "string option"

datatype OrderStatus =
  CREATED | PAID | WAREHOUSE_RECEIVED | PROCESSING | SHIPPED | CUSTOMS
  | IN_TRANSIT | READY_PICKUP | DELIVERED | PROBLEM | CANCELLED

datatype PurchaseOrderStatus =
  P_CREATED | P_PAID | P_PURCHASING | P_PURCHASED | P_WAREHOUSE_RECEIVED
  | P_SHIPPED | P_DELIVERED | P_PROBLEM | P_REFUNDED

text \<open>The string value of each enum member, as written to the status history.\<close>

fun OrderStatus_str :: "OrderStatus \<Rightarrow> string" where
  "OrderStatus_str CREATED = ''CREATED''"
| "OrderStatus_str PAID = ''PAID''"
| "OrderStatus_str WAREHOUSE_RECEIVED = ''WAREHOUSE_RECEIVED''"
| "OrderStatus_str PROCESSING = ''PROCESSING''"
| "OrderStatus_str SHIPPED = ''SHIPPED''"
| "OrderStatus_str CUSTOMS = ''CUSTOMS''"
| "OrderStatus_str IN_TRANSIT = ''IN_TRANSIT''"
| "OrderStatus_str READY_PICKUP = ''READY_PICKUP''"
| "OrderStatus_str DELIVERED = ''DELIVERED''"
| "OrderStatus_str PROBLEM = ''PROBLEM''"
| "OrderStatus_str CANCELLED = ''CANCELLED''"

fun PurchaseOrderStatus_str :: "PurchaseOrderStatus \<Rightarrow> string" where
  "PurchaseOrderStatus_str P_CREATED = ''CREATED''"
| "PurchaseOrderStatus_str P_PAID = ''PAID''"
| "PurchaseOrderStatus_str P_PURCHASING = ''PURCHASING''"
| "PurchaseOrderStatus_str P_PURCHASED = ''PURCHASED''"
| "PurchaseOrderStatus_str P_WAREHOUSE_RECEIVED = ''WAREHOUSE_RECEIVED''"
| "PurchaseOrderStatus_str P_SHIPPED = ''SHIPPED''"
| "PurchaseOrderStatus_str P_DELIVERED = ''DELIVERED''"
| "PurchaseOrderStatus_str P_PROBLEM = ''PROBLEM''"
| "PurchaseOrderStatus_str P_REFUNDED = ''REFUNDED''"

datatype TransactionType = PAYMENT | REFUND | BONUS | WITHDRAWAL | COMMISSION | CASHBACK

datatype TransactionStatus =
  T_PENDING | T_PROCESSING | T_COMPLETED | T_FAILED | T_CANCELLED | T_EXPIRED

record Transaction =
  tx_id :: nat
  tx_userId :: nat
  tx_orderId :: "nat option"
  tx_orderType :: "string option"
  tx_amount :: jsnum
  tx_type :: TransactionType
  tx_status :: TransactionStatus
  tx_description :: "string option"
  tx_metadata :: "string option"
  tx_createdAt :: timestamp
  tx_completedAt :: "timestamp option"
  tx_updatedAt :: timestamp

record OrderStatusHistory =
  h_orderId :: nat
  h_orderType :: string
  h_oldStatus :: "string option"
  h_newStatus :: string
  h_comment :: "string option"
  h_adminId :: "nat option"
  h_createdAt :: timestamp

record ShippingOrder =
  so_id :: nat
  so_userId :: nat
  so_countryFromId :: nat
  so_weight :: jsnum
  so_declaredValue :: "jsnum option"
  so_declaredCurrency :: string
  so_description :: "string option"
  so_recipientName :: string
  so_recipientPhone :: string
  so_recipientAddress :: string
  so_totalCost :: jsnum
  so_status :: OrderStatus
  so_adminComment :: "string option"
  so_trackNumber :: "string option"
  so_createdAt :: timestamp
  so_updatedAt :: timestamp

record PurchaseOrder =
  po_id :: nat
  po_userId :: nat
  po_countryId :: nat
  po_productId :: "nat option"
  po_productUrl :: "string option"
  po_productName :: string
  po_quantity :: nat
  po_productPrice :: jsnum
  po_productCurrency :: string
  po_commission :: jsnum
  po_totalCost :: jsnum
  po_prepaymentAmount :: jsnum
  po_status :: PurchaseOrderStatus
  po_adminComment :: "string option"
  po_customerNotes :: "string option"
  po_trackNumber :: "string option"
  po_createdAt :: timestamp
  po_updatedAt :: timestamp

text \<open>
  An order object as the services hand it around: the row, the relations a query asked
  for with \<open>include\<close> (\<open>None\<close> when the query did not include them), the
  \<open>type\<close> property that \<open>cacheOrder\<close> adds (\<open>None\<close> on an object straight from the
  durable store), and the form in which the object carries its date properties, those
  of the relations included; the instants in the rows are those of the stored rows.
  The \<open>user\<close>, \<open>country\<close> and \<open>product\<close> relations are left out.
\<close>

datatype order_row = ShippingRow ShippingOrder | PurchaseRow PurchaseOrder

record OrderObject =
  oo_row :: order_row
  oo_statusHistory :: "OrderStatusHistory list option"
  oo_transactions :: "Transaction list option"
  oo_type :: "string option"
  oo_dates :: dates

fun row_status :: "order_row \<Rightarrow> string" where
  "row_status (ShippingRow r) = OrderStatus_str (so_status r)"
| "row_status (PurchaseRow r) = PurchaseOrderStatus_str (po_status r)"

text \<open>
  The JSON image of a transaction, of an order row and of an order object. The form of
  the dates is recorded for an order object; that of a cached transaction, which no
  operation below reads, is not.
\<close>

definition json_transaction :: "Transaction \<Rightarrow> Transaction" where
  "json_transaction t = t\<lparr>tx_amount := json_number (tx_amount t)\<rparr>"

fun json_row :: "order_row \<Rightarrow> order_row" where
  "json_row (ShippingRow r) =
     ShippingRow (r\<lparr>so_weight := json_number (so_weight r),
                     so_declaredValue := map_option json_number (so_declaredValue r),
                     so_totalCost := json_number (so_totalCost r)\<rparr>)"
| "json_row (PurchaseRow r) =
     PurchaseRow (r\<lparr>po_productPrice := json_number (po_productPrice r),
                     po_commission := json_number (po_commission r),
                     po_totalCost := json_number (po_totalCost r),
                     po_prepaymentAmount := json_number (po_prepaymentAmount r)\<rparr>)"

definition json_order :: "OrderObject \<Rightarrow> OrderObject" where
  "json_order order =
     order\<lparr>oo_row := json_row (oo_row order),
            oo_transactions := map_option (map json_transaction) (oo_transactions order),
            oo_dates := json_dates (oo_dates order)\<rparr>"

section \<open>The state: durable tables and cache\<close>

text \<open>
  The durable store is one list per Prisma model, in insertion order, with the
  auto-increment counters of the order and transaction tables; \<open>dbReads\<close> counts the
  \<open>findUnique\<close> queries issued so far. The cache holds, per key prefix, the values
  that the repository stores under that prefix, each with the instant at which its TTL
  runs out. \<open>setWithTTL\<close> writes the JSON text of its argument and \<open>get\<close> parses
  the text it finds, so what a map holds for a key is the parsed form of the stored
  text: the callers of \<open>setWithTTL\<close> pass the JSON image of the object they store
  (\<open>json_order\<close>, \<open>json_transaction\<close>; the token, session and refresh objects consist
  of strings, booleans and integers, with ISO strings for their dates, and are their own
  images). Both stores are available throughout.
\<close>

type_synonym 'v cache = "string \<rightharpoonup> ('v \<times> timestamp)"

record World =
  db_adminDashboardToken :: "AdminDashboardToken list"
  db_admin :: "Admin list"
  db_user :: "User list"
  db_shippingOrder :: "ShippingOrder list"
  db_purchaseOrder :: "PurchaseOrder list"
  db_orderStatusHistory :: "OrderStatusHistory list"
  db_transaction :: "Transaction list"
  shippingOrder_seq :: nat
  purchaseOrder_seq :: nat
  transaction_seq :: nat
  dbReads :: nat
  r_dashboard :: "TokenData cache"
  r_pending :: "PendingValue cache"
  r_web_session :: "SessionData cache"
  r_refresh :: "(string \<times> nat) cache"
  r_order :: "OrderObject cache"
  r_transaction :: "Transaction cache"
  r_user_profile :: "User cache"

section \<open>RedisHelper\<close>

text \<open>The methods that class \<open>RedisHelper\<close> defines, in the order of the source.\<close>

definition RedisHelper_methods :: "string list" where
  "RedisHelper_methods =
     [''setWithTTL'', ''get'', ''mget'', ''mset'', ''sadd'', ''srem'', ''smembers'',
      ''sismember'', ''hset'', ''hget'', ''hgetall'', ''incr'', ''incrby'', ''decr'',
      ''lock'', ''unlock'', ''publish'', ''deletePattern'', ''clearCache'', ''ping'',
      ''info'']"

text \<open>
  \<open>setex\<close>: the key holds the text for \<open>ttl\<close> seconds from \<open>now\<close>; \<open>v\<close> is the
  parsed form of that text.
\<close>

definition setWithTTL :: "'v cache \<Rightarrow> timestamp \<Rightarrow> string \<Rightarrow> 'v \<Rightarrow> int \<Rightarrow> 'v cache" where
  "setWithTTL c now key v ttl = c(key \<mapsto> (v, now + ttl * 1000))"

text \<open>
  \<open>get\<close>: \<open>JSON.parse\<close> of the stored text (the text itself when it is no JSON),
  which is what the map holds; null once the TTL has run out or when the key was never
  set.
\<close>

definition get :: "'v cache \<Rightarrow> timestamp \<Rightarrow> string \<Rightarrow> 'v option" where
  "get c now key =
     (case c key of
        None \<Rightarrow> None
      | Some (v, expiry) \<Rightarrow> if now < expiry then Some v else None)"

text \<open>
  A call \<open>redisHelper.del(key)\<close>. The services are constructed with a \<open>RedisHelper\<close>;
  calling a property that the object does not have throws a \<open>TypeError\<close>. Were the
  method present, it would remove the key.
\<close>

definition del_error :: error where
  "del_error = TypeError ''del is not a function''"

definition del :: "'v cache \<Rightarrow> string \<Rightarrow> ('v cache) result" where
  "del c key =
     (if ''del'' \<in> set RedisHelper_methods then Inr (c(key := None))
      else Inl del_error)"

section \<open>Prisma client: the admin token and admin models\<close>

text \<open>
  A token row as the query engine hands it to the middleware of the client (the \<open>id\<close>
  column and the included \<open>admin\<close> are left out). The queries below name the stored
  row that they return; the object that the calling code holds for it is
  \<open>convertBigInt (token_object row)\<close>, in which \<open>adminId\<close>, \<open>accessKey\<close> and
  \<open>isUsed\<close> are those of the row and \<open>expiresAt\<close>, \<open>createdAt\<close> and \<open>usedAt\<close>
  are empty objects.
\<close>

definition token_object :: "AdminDashboardToken \<Rightarrow> js" where
  "token_object t =
     JObject
       [(''adminId'', JNumber (number (of_nat (adt_adminId t)))),
        (''token'', JString (adt_token t)),
        (''accessKey'', JString (adt_accessKey t)),
        (''expiresAt'', JDate (adt_expiresAt t)),
        (''isUsed'', JBool (adt_isUsed t)),
        (''createdAt'', JDate (adt_createdAt t)),
        (''usedAt'', case adt_usedAt t of None \<Rightarrow> JNull | Some u \<Rightarrow> JDate u),
        (''ipAddress'', case adt_ipAddress t of None \<Rightarrow> JNull | Some a \<Rightarrow> JString a)]"

text \<open>
  Modelled from the spec: the Prisma schema is not among the sources. A token row is
  unique on \<open>token\<close> and on \<open>accessKey\<close>, and a new row has \<open>isUsed = false\<close>,
  \<open>createdAt = now\<close> and no \<open>usedAt\<close>.
\<close>

definition adminDashboardToken_create ::
  "World \<Rightarrow> timestamp \<Rightarrow> nat \<Rightarrow> string \<Rightarrow> string \<Rightarrow> timestamp \<Rightarrow> string option
     \<Rightarrow> AdminDashboardToken result \<times> World" where
  "adminDashboardToken_create w now adminId token accessKey expiresAt ipAddress =
     (if \<exists>t \<in> set (db_adminDashboardToken w). adt_token t = token \<or> adt_accessKey t = accessKey
      then (Inl (PrismaError ''Unique constraint failed''), w)
      else
        let row = \<lparr>adt_adminId = adminId, adt_token = token, adt_accessKey = accessKey,
                   adt_expiresAt = expiresAt, adt_isUsed = False, adt_createdAt = now,
                   adt_usedAt = None, adt_ipAddress = ipAddress\<rparr>
        in (Inr row, w\<lparr>db_adminDashboardToken := db_adminDashboardToken w @ [row]\<rparr>))"

definition adminDashboardToken_findUnique ::
  "World \<Rightarrow> string \<Rightarrow> AdminDashboardToken option \<times> World" where
  "adminDashboardToken_findUnique w token =
     (find (\<lambda>t. adt_token t = token) (db_adminDashboardToken w),
      w\<lparr>dbReads := dbReads w + 1\<rparr>)"

definition adminDashboardToken_updateMany ::
  "World \<Rightarrow> (AdminDashboardToken \<Rightarrow> bool) \<Rightarrow> (AdminDashboardToken \<Rightarrow> AdminDashboardToken)
     \<Rightarrow> World" where
  "adminDashboardToken_updateMany w wh upd =
     w\<lparr>db_adminDashboardToken := map (\<lambda>t. if wh t then upd t else t) (db_adminDashboardToken w)\<rparr>"

definition admin_findUnique :: "World \<Rightarrow> nat \<Rightarrow> Admin option \<times> World" where
  "admin_findUnique w ident =
     (find (\<lambda>a. admin_id a = ident) (db_admin w), w\<lparr>dbReads := dbReads w + 1\<rparr>)"

section \<open>AdminAuthService\<close>

text \<open>
  The refusals of \<open>validateDashboardToken\<close>, one per message of the source: token
  not found or expired (\<open>NotFound\<close>), wrong access key (\<open>KeyMismatch\<close>), token
  already used (\<open>AlreadyUsed\<close>), token expired (\<open>Expired\<close>). A success carries
  the \<open>adminId\<close> and the stored row that \<open>tokenRecord\<close> stands for.
\<close>

datatype refusal = NotFound | KeyMismatch | AlreadyUsed | Expired

datatype validation =
  Valid nat "AdminDashboardToken option"
| Invalid refusal

definition markTokenAsUsed ::
  "World \<Rightarrow> timestamp \<Rightarrow> string \<Rightarrow> string option \<Rightarrow> unit result \<times> World" where
  "markTokenAsUsed w now token ipAddress =
     (let w1 = adminDashboardToken_updateMany w (\<lambda>t. adt_token t = token)
                 (\<lambda>t. t\<lparr>adt_isUsed := True, adt_usedAt := Some now,
                         adt_ipAddress := (case ipAddress of None \<Rightarrow> adt_ipAddress t
                                           | Some ip \<Rightarrow> Some ip)\<rparr>);
          redisKey = ''admin:dashboard:'' @ token
      in case del (r_dashboard w1) redisKey of
           Inl e \<Rightarrow> (Inl e, w1)
         | Inr c \<Rightarrow> (Inr (), w1\<lparr>r_dashboard := c\<rparr>))"

definition markTokenAsExpired :: "World \<Rightarrow> string \<Rightarrow> unit result \<times> World" where
  "markTokenAsExpired w token =
     (case del (r_dashboard w) (''admin:dashboard:'' @ token) of
        Inl e \<Rightarrow> (Inl e, w)
      | Inr c \<Rightarrow> (Inr (), w\<lparr>r_dashboard := c\<rparr>))"

definition revokeAdminTokens :: "World \<Rightarrow> timestamp \<Rightarrow> nat \<Rightarrow> unit result \<times> World" where
  "revokeAdminTokens w now adminId =
     (let w1 = adminDashboardToken_updateMany w
                 (\<lambda>t. adt_adminId t = adminId \<and> \<not> adt_isUsed t \<and> adt_expiresAt t > now)
                 (\<lambda>t. t\<lparr>adt_isUsed := True, adt_usedAt := Some now\<rparr>);
          adminKey = ''admin:pending:'' @ show_nat adminId
      in case get (r_pending w1) now adminKey of
           None \<Rightarrow> (Inr (), w1)
         | Some activeToken \<Rightarrow>
             if \<not> pv_truthy activeToken then (Inr (), w1)
             else
               (let tokenKey = ''admin:dashboard:'' @ pv_string activeToken
                in case del (r_dashboard w1) tokenKey of
                     Inl e \<Rightarrow> (Inl e, w1)
                   | Inr c \<Rightarrow>
                       (let w2 = w1\<lparr>r_dashboard := c\<rparr>
                        in (case del (r_pending w2) adminKey of
                              Inl e \<Rightarrow> (Inl e, w2)
                            | Inr p \<Rightarrow> (Inr (), w2\<lparr>r_pending := p\<rparr>)))))"

text \<open>
  \<open>generateDashboardAccess\<close>: the two \<open>generateId\<close> results are the arguments
  \<open>accessKey\<close> and \<open>token\<close>, and \<open>url\<close> is what \<open>env.getAdminDashboardUrl()\<close> returns.
  \<open>expiresAt\<close> is computed from the clock before the row is inserted; the mirror is
  built and its TTL starts after the insert. \<open>now\<close> is the instant of the first
  reading and \<open>now'\<close> that of the later ones.
\<close>

definition generateDashboardAccess_at ::
  "World \<Rightarrow> timestamp \<Rightarrow> timestamp \<Rightarrow> string \<Rightarrow> string \<Rightarrow> string \<Rightarrow> nat \<Rightarrow> string option
     \<Rightarrow> AdminDashboardAccess result \<times> World" where
  "generateDashboardAccess_at w now now' url accessKey token adminId ipAddress =
     (case revokeAdminTokens w now adminId of
        (Inl e, w1) \<Rightarrow> (Inl e, w1)
      | (Inr _, w1) \<Rightarrow>
          let expiresAt = now + 15 * 60 * 1000
          in (case adminDashboardToken_create w1 now adminId token accessKey expiresAt ipAddress of
               (Inl e, w2) \<Rightarrow> (Inl e, w2)
             | (Inr _, w2) \<Rightarrow>
                 let tokenData = \<lparr>td_adminId = adminId, td_accessKey = accessKey,
                                  td_expiresAt = expiresAt, td_isUsed = False,
                                  td_createdAt = now', td_ipAddress = ipAddress\<rparr>;
                     redisKey = ''admin:dashboard:'' @ token;
                     w3 = w2\<lparr>r_dashboard := setWithTTL (r_dashboard w2) now' redisKey tokenData (15 * 60)\<rparr>
                 in (Inr \<lparr>dashboardUrl = url @ ''/'' @ token, ada_accessKey = accessKey,
                          ada_expiresAt = expiresAt\<rparr>, w3)))"

text \<open>The call when all its clock readings fall on one instant.\<close>

definition generateDashboardAccess ::
  "World \<Rightarrow> timestamp \<Rightarrow> string \<Rightarrow> string \<Rightarrow> string \<Rightarrow> nat \<Rightarrow> string option
     \<Rightarrow> AdminDashboardAccess result \<times> World" where
  "generateDashboardAccess w now url accessKey token adminId ipAddress =
     generateDashboardAccess_at w now now url accessKey token adminId ipAddress"

text \<open>
  The first half of \<open>validateDashboardToken\<close>: the cache mirror when there is one,
  else the object that the Prisma client returns for the row, rewritten as a mirror;
  the rewriting calls \<open>toISOString\<close> on the \<open>expiresAt\<close> and then on the
  \<open>createdAt\<close> of that object.
\<close>

definition lookupTokenData ::
  "World \<Rightarrow> timestamp \<Rightarrow> string \<Rightarrow> TokenData option result \<times> World" where
  "lookupTokenData w now token =
     (case get (r_dashboard w) now (''admin:dashboard:'' @ token) of
        Some tokenData \<Rightarrow> (Inr (Some tokenData), w)
      | None \<Rightarrow>
          (case adminDashboardToken_findUnique w token of
             (None, w1) \<Rightarrow> (Inr None, w1)
           | (Some row, w1) \<Rightarrow>
               (let dbToken = convertBigInt (token_object row)
                in case toISOString (property dbToken ''expiresAt'') of
                     Inl e \<Rightarrow> (Inl e, w1)
                   | Inr expiresAt \<Rightarrow>
                       (case toISOString (property dbToken ''createdAt'') of
                          Inl e \<Rightarrow> (Inl e, w1)
                        | Inr createdAt \<Rightarrow>
                            (Inr (Some \<lparr>td_adminId = adt_adminId row,
                                         td_accessKey = adt_accessKey row,
                                         td_expiresAt = expiresAt, td_isUsed = adt_isUsed row,
                                         td_createdAt = createdAt, td_ipAddress = None\<rparr>),
                             w1)))))"

definition validateDashboardToken ::
  "World \<Rightarrow> timestamp \<Rightarrow> string \<Rightarrow> string \<Rightarrow> validation result \<times> World" where
  "validateDashboardToken w now token accessKey =
     (case lookupTokenData w now token of
        (Inl e, w1) \<Rightarrow> (Inl e, w1)
      | (Inr None, w1) \<Rightarrow> (Inr (Invalid NotFound), w1)
      | (Inr (Some tokenData), w1) \<Rightarrow>
          if td_accessKey tokenData \<noteq> accessKey then (Inr (Invalid KeyMismatch), w1)
          else if td_isUsed tokenData then (Inr (Invalid AlreadyUsed), w1)
          else if now > td_expiresAt tokenData then
            (case markTokenAsExpired w1 token of
               (Inl e, w2) \<Rightarrow> (Inl e, w2)
             | (Inr _, w2) \<Rightarrow> (Inr (Invalid Expired), w2))
          else
            (case adminDashboardToken_findUnique w1 token of
               (tokenRecord, w2) \<Rightarrow> (Inr (Valid (td_adminId tokenData) tokenRecord), w2)))"

text \<open>
  \<open>createWebSession\<close>: the three \<open>generateId\<close> results are arguments.
\<close>

definition createWebSession ::
  "World \<Rightarrow> timestamp \<Rightarrow> string \<Rightarrow> string \<Rightarrow> string \<Rightarrow> nat \<Rightarrow> string option \<Rightarrow> string option
     \<Rightarrow> SessionData \<times> World" where
  "createWebSession w now sessionId accessToken refreshToken adminId ipAddress userAgent =
     (let expiresAt = now + 7 * 24 * 60 * 60 * 1000;
          sessionData = \<lparr>sd_sessionId = sessionId, sd_adminId = adminId,
                          sd_accessToken = accessToken, sd_refreshToken = refreshToken,
                          sd_expiresAt = expiresAt, sd_createdAt = now, sd_lastActivity = now,
                          sd_ipAddress = ipAddress, sd_userAgent = userAgent\<rparr>;
          w1 = w\<lparr>r_web_session := setWithTTL (r_web_session w) now
                      (''admin:web_session:'' @ sessionId) sessionData (7 * 24 * 60 * 60)\<rparr>;
          w2 = w1\<lparr>r_refresh := setWithTTL (r_refresh w1) now
                      (''admin:refresh:'' @ refreshToken) (sessionId, adminId) (30 * 24 * 60 * 60)\<rparr>
      in (sessionData, w2))"

text \<open>
  \<open>validateWebSession\<close> returns \<open>{valid: false}\<close> (\<open>None\<close>) or
  \<open>{valid: true, admin, session}\<close>.
\<close>

definition validateWebSession ::
  "World \<Rightarrow> timestamp \<Rightarrow> string \<Rightarrow> (Admin \<times> SessionData) option result \<times> World" where
  "validateWebSession w now sessionId =
     (let key = ''admin:web_session:'' @ sessionId
      in case get (r_web_session w) now key of
           None \<Rightarrow> (Inr None, w)
         | Some sessionData \<Rightarrow>
             if now > sd_expiresAt sessionData then
               (case del (r_web_session w) key of
                  Inl e \<Rightarrow> (Inl e, w)
                | Inr c \<Rightarrow> (Inr None, w\<lparr>r_web_session := c\<rparr>))
             else
               (case admin_findUnique w (sd_adminId sessionData) of
                  (a, w1) \<Rightarrow>
                    if a = None \<or> \<not> admin_isActive (the a) then
                      (case del (r_web_session w1) key of
                         Inl e \<Rightarrow> (Inl e, w1)
                       | Inr c \<Rightarrow> (Inr None, w1\<lparr>r_web_session := c\<rparr>))
                    else
                      let sessionData' = sessionData\<lparr>sd_lastActivity := now\<rparr>;
                          w2 = w1\<lparr>r_web_session := setWithTTL (r_web_session w1) now key
                                      sessionData' (7 * 24 * 60 * 60)\<rparr>
                      in (Inr (Some (the a, sessionData')), w2)))"

section \<open>Prisma client: orders, status history, transactions, users\<close>

record ShippingOrderData =
  sod_userId :: nat
  sod_countryFromId :: nat
  sod_weight :: jsnum
  sod_declaredValue :: "jsnum option"
  sod_declaredCurrency :: "string option"
  sod_description :: "string option"
  sod_recipientName :: string
  sod_recipientPhone :: string
  sod_recipientAddress :: string
  sod_totalCost :: jsnum

record PurchaseOrderData =
  pd_userId :: nat
  pd_countryId :: nat
  pd_productId :: "nat option"
  pd_productUrl :: "string option"
  pd_productName :: string
  pd_quantity :: nat
  pd_productPrice :: jsnum
  pd_productCurrency :: "string option"
  pd_commission :: jsnum
  pd_prepaymentAmount :: jsnum
  pd_customerNotes :: "string option"

record TransactionData =
  txd_userId :: nat
  txd_orderId :: "nat option"
  txd_orderType :: "string option"
  txd_amount :: jsnum
  txd_type :: TransactionType
  txd_description :: "string option"
  txd_metadata :: "string option"

text \<open>\<open>x || 'USD'\<close>: the default also replaces the empty string.\<close>

definition or_USD :: "string option \<Rightarrow> string" where
  "or_USD c = (case c of None \<Rightarrow> ''USD'' | Some s \<Rightarrow> if s = [] then ''USD'' else s)"

text \<open>
  Modelled from the spec: the Prisma schema is not among the sources. A new row takes
  the next value of its table's counter as \<open>id\<close>, \<open>createdAt = updatedAt = now\<close>, and
  no value in the optional columns that the call does not set; \<open>update\<close> throws when
  no row has the given \<open>id\<close>; the \<open>statusHistory\<close> and \<open>transactions\<close> relations of
  an order are the rows that carry its \<open>orderId\<close> and \<open>orderType\<close>.
\<close>

text \<open>
  The functions below return stored rows. The object that the calling code holds has
  passed the middleware: its numbers, strings and booleans are those of the row, its
  identifiers print in a template literal as those of the row do, and its date
  properties are in the form \<open>prisma_dates\<close>.
\<close>

definition prisma_dates :: dates where
  "prisma_dates = converted_dates DateObjects"

definition shippingOrder_create ::
  "World \<Rightarrow> timestamp \<Rightarrow> ShippingOrderData \<Rightarrow> string \<Rightarrow> OrderStatus \<Rightarrow> ShippingOrder \<times> World" where
  "shippingOrder_create w now d declaredCurrency status =
     (let row = \<lparr>so_id = shippingOrder_seq w + 1, so_userId = sod_userId d,
                  so_countryFromId = sod_countryFromId d, so_weight = sod_weight d,
                  so_declaredValue = sod_declaredValue d, so_declaredCurrency = declaredCurrency,
                  so_description = sod_description d, so_recipientName = sod_recipientName d,
                  so_recipientPhone = sod_recipientPhone d,
                  so_recipientAddress = sod_recipientAddress d, so_totalCost = sod_totalCost d,
                  so_status = status, so_adminComment = None, so_trackNumber = None,
                  so_createdAt = now, so_updatedAt = now\<rparr>
      in (row, w\<lparr>db_shippingOrder := db_shippingOrder w @ [row],
                  shippingOrder_seq := shippingOrder_seq w + 1\<rparr>))"

definition purchaseOrder_create ::
  "World \<Rightarrow> timestamp \<Rightarrow> PurchaseOrderData \<Rightarrow> string \<Rightarrow> jsnum \<Rightarrow> PurchaseOrderStatus
     \<Rightarrow> PurchaseOrder \<times> World" where
  "purchaseOrder_create w now d productCurrency totalCost status =
     (let row = \<lparr>po_id = purchaseOrder_seq w + 1, po_userId = pd_userId d,
                  po_countryId = pd_countryId d, po_productId = pd_productId d,
                  po_productUrl = pd_productUrl d, po_productName = pd_productName d,
                  po_quantity = pd_quantity d, po_productPrice = pd_productPrice d,
                  po_productCurrency = productCurrency, po_commission = pd_commission d,
                  po_totalCost = totalCost, po_prepaymentAmount = pd_prepaymentAmount d,
                  po_status = status, po_adminComment = None,
                  po_customerNotes = pd_customerNotes d, po_trackNumber = None,
                  po_createdAt = now, po_updatedAt = now\<rparr>
      in (row, w\<lparr>db_purchaseOrder := db_purchaseOrder w @ [row],
                  purchaseOrder_seq := purchaseOrder_seq w + 1\<rparr>))"

definition statusHistory_of :: "World \<Rightarrow> nat \<Rightarrow> string \<Rightarrow> OrderStatusHistory list" where
  "statusHistory_of w orderId orderType =
     filter (\<lambda>h. h_orderId h = orderId \<and> h_orderType h = orderType) (db_orderStatusHistory w)"

definition transactions_of :: "World \<Rightarrow> nat \<Rightarrow> string \<Rightarrow> Transaction list" where
  "transactions_of w orderId orderType =
     filter (\<lambda>t. tx_orderId t = Some orderId \<and> tx_orderType t = Some orderType) (db_transaction w)"

text \<open>
  \<open>findUnique\<close> with \<open>statusHistory\<close> (newest first) and \<open>transactions\<close> included.
\<close>

definition shippingOrder_findUnique :: "World \<Rightarrow> nat \<Rightarrow> OrderObject option \<times> World" where
  "shippingOrder_findUnique w orderId =
     (map_option
        (\<lambda>row. \<lparr>oo_row = ShippingRow row,
                 oo_statusHistory = Some (rev (statusHistory_of w orderId ''shipping'')),
                 oo_transactions = Some (transactions_of w orderId ''shipping''),
                 oo_type = None, oo_dates = prisma_dates\<rparr>)
        (find (\<lambda>r. so_id r = orderId) (db_shippingOrder w)),
      w\<lparr>dbReads := dbReads w + 1\<rparr>)"

definition purchaseOrder_findUnique :: "World \<Rightarrow> nat \<Rightarrow> OrderObject option \<times> World" where
  "purchaseOrder_findUnique w orderId =
     (map_option
        (\<lambda>row. \<lparr>oo_row = PurchaseRow row,
                 oo_statusHistory = Some (rev (statusHistory_of w orderId ''purchase'')),
                 oo_transactions = Some (transactions_of w orderId ''purchase''),
                 oo_type = None, oo_dates = prisma_dates\<rparr>)
        (find (\<lambda>r. po_id r = orderId) (db_purchaseOrder w)),
      w\<lparr>dbReads := dbReads w + 1\<rparr>)"

definition shippingOrder_update ::
  "World \<Rightarrow> nat \<Rightarrow> (ShippingOrder \<Rightarrow> ShippingOrder) \<Rightarrow> ShippingOrder result \<times> World" where
  "shippingOrder_update w orderId upd =
     (case find (\<lambda>r. so_id r = orderId) (db_shippingOrder w) of
        None \<Rightarrow> (Inl (PrismaError ''Record to update not found''), w)
      | Some row \<Rightarrow>
          (Inr (upd row),
           w\<lparr>db_shippingOrder := map (\<lambda>r. if so_id r = orderId then upd r else r) (db_shippingOrder w)\<rparr>))"

definition purchaseOrder_update ::
  "World \<Rightarrow> nat \<Rightarrow> (PurchaseOrder \<Rightarrow> PurchaseOrder) \<Rightarrow> PurchaseOrder result \<times> World" where
  "purchaseOrder_update w orderId upd =
     (case find (\<lambda>r. po_id r = orderId) (db_purchaseOrder w) of
        None \<Rightarrow> (Inl (PrismaError ''Record to update not found''), w)
      | Some row \<Rightarrow>
          (Inr (upd row),
           w\<lparr>db_purchaseOrder := map (\<lambda>r. if po_id r = orderId then upd r else r) (db_purchaseOrder w)\<rparr>))"

definition orderStatusHistory_create :: "World \<Rightarrow> OrderStatusHistory \<Rightarrow> World" where
  "orderStatusHistory_create w row = w\<lparr>db_orderStatusHistory := db_orderStatusHistory w @ [row]\<rparr>"

definition transaction_create ::
  "World \<Rightarrow> timestamp \<Rightarrow> TransactionData \<Rightarrow> TransactionStatus \<Rightarrow> Transaction \<times> World" where
  "transaction_create w now d status =
     (let row = \<lparr>tx_id = transaction_seq w + 1, tx_userId = txd_userId d,
                  tx_orderId = txd_orderId d, tx_orderType = txd_orderType d,
                  tx_amount = txd_amount d, tx_type = txd_type d, tx_status = status,
                  tx_description = txd_description d, tx_metadata = txd_metadata d,
                  tx_createdAt = now, tx_completedAt = None, tx_updatedAt = now\<rparr>
      in (row, w\<lparr>db_transaction := db_transaction w @ [row],
                  transaction_seq := transaction_seq w + 1\<rparr>))"

definition transaction_update ::
  "World \<Rightarrow> nat \<Rightarrow> (Transaction \<Rightarrow> Transaction) \<Rightarrow> Transaction result \<times> World" where
  "transaction_update w transactionId upd =
     (case find (\<lambda>t. tx_id t = transactionId) (db_transaction w) of
        None \<Rightarrow> (Inl (PrismaError ''Record to update not found''), w)
      | Some row \<Rightarrow>
          (Inr (upd row),
           w\<lparr>db_transaction := map (\<lambda>t. if tx_id t = transactionId then upd t else t) (db_transaction w)\<rparr>))"

definition user_findUnique :: "World \<Rightarrow> nat \<Rightarrow> User option \<times> World" where
  "user_findUnique w userId =
     (find (\<lambda>u. user_id u = userId) (db_user w), w\<lparr>dbReads := dbReads w + 1\<rparr>)"

definition user_update :: "World \<Rightarrow> nat \<Rightarrow> (User \<Rightarrow> User) \<Rightarrow> User result \<times> World" where
  "user_update w userId upd =
     (case find (\<lambda>u. user_id u = userId) (db_user w) of
        None \<Rightarrow> (Inl (PrismaError ''Record to update not found''), w)
      | Some row \<Rightarrow>
          (Inr (upd row),
           w\<lparr>db_user := map (\<lambda>u. if user_id u = userId then upd u else u) (db_user w)\<rparr>))"

section \<open>Cache keys and TTL constants\<close>

definition ORDER_DETAILS :: "nat \<Rightarrow> string" where
  "ORDER_DETAILS orderId = ''cache:order:'' @ show_nat orderId"

definition USER_PROFILE :: "nat \<Rightarrow> string" where
  "USER_PROFILE userId = ''cache:user:'' @ show_nat userId"

definition TTL_MEDIUM :: int where
  "TTL_MEDIUM = 60 * 30"

section \<open>OrderService\<close>

text \<open>
  The two comments that the source writes to the first history row are Russian
  literals; they are rendered in English here.
\<close>

definition SHIPPING_CREATED_COMMENT :: string where
  "SHIPPING_CREATED_COMMENT = ''Order created''"

definition PURCHASE_CREATED_COMMENT :: string where
  "PURCHASE_CREATED_COMMENT = ''Purchase request created''"

definition createStatusHistory ::
  "World \<Rightarrow> timestamp \<Rightarrow> nat \<Rightarrow> string \<Rightarrow> string option \<Rightarrow> string \<Rightarrow> string option
     \<Rightarrow> nat option \<Rightarrow> World" where
  "createStatusHistory w now orderId orderType oldStatus newStatus comment adminId =
     orderStatusHistory_create w
       \<lparr>h_orderId = orderId, h_orderType = orderType, h_oldStatus = oldStatus,
        h_newStatus = newStatus, h_comment = comment, h_adminId = adminId,
        h_createdAt = now\<rparr>"

definition cacheOrder :: "World \<Rightarrow> timestamp \<Rightarrow> nat \<Rightarrow> OrderObject \<Rightarrow> string \<Rightarrow> World" where
  "cacheOrder w now orderId order type =
     (let cacheKey = ORDER_DETAILS orderId
      in w\<lparr>r_order := setWithTTL (r_order w) now cacheKey
                          (json_order (order\<lparr>oo_type := Some type\<rparr>)) TTL_MEDIUM\<rparr>)"

definition getCachedOrder :: "World \<Rightarrow> timestamp \<Rightarrow> nat \<Rightarrow> string \<Rightarrow> OrderObject option" where
  "getCachedOrder w now orderId type =
     (let cacheKey = ORDER_DETAILS orderId
      in case get (r_order w) now cacheKey of
           Some cached \<Rightarrow> if oo_type cached = Some type then Some cached else None
         | None \<Rightarrow> None)"

definition clearOrderCache :: "World \<Rightarrow> nat \<Rightarrow> string \<Rightarrow> unit result \<times> World" where
  "clearOrderCache w orderId type =
     (let cacheKey = ORDER_DETAILS orderId
      in case del (r_order w) cacheKey of
           Inl e \<Rightarrow> (Inl e, w)
         | Inr c \<Rightarrow> (Inr (), w\<lparr>r_order := c\<rparr>))"

definition createShippingOrder ::
  "World \<Rightarrow> timestamp \<Rightarrow> ShippingOrderData \<Rightarrow> OrderObject \<times> World" where
  "createShippingOrder w now d =
     (case shippingOrder_create w now d (or_USD (sod_declaredCurrency d)) CREATED of
        (row, w1) \<Rightarrow>
          let order = \<lparr>oo_row = ShippingRow row, oo_statusHistory = None,
                       oo_transactions = None, oo_type = None, oo_dates = prisma_dates\<rparr>;
              w2 = createStatusHistory w1 now (so_id row) ''shipping'' None
                     (OrderStatus_str CREATED) (Some SHIPPING_CREATED_COMMENT) None;
              w3 = cacheOrder w2 now (so_id row) order ''shipping''
          in (order, w3))"

definition createPurchaseOrder ::
  "World \<Rightarrow> timestamp \<Rightarrow> PurchaseOrderData \<Rightarrow> OrderObject \<times> World" where
  "createPurchaseOrder w now d =
     (let totalCost = js_add (pd_productPrice d) (pd_commission d)
      in case purchaseOrder_create w now d (or_USD (pd_productCurrency d)) totalCost P_CREATED of
           (row, w1) \<Rightarrow>
             let order = \<lparr>oo_row = PurchaseRow row, oo_statusHistory = None,
                          oo_transactions = None, oo_type = None, oo_dates = prisma_dates\<rparr>;
                 w2 = createStatusHistory w1 now (po_id row) ''purchase'' None
                        ''CREATED'' (Some PURCHASE_CREATED_COMMENT) None;
                 w3 = cacheOrder w2 now (po_id row) order ''purchase''
             in (order, w3))"

definition getShippingOrder :: "World \<Rightarrow> timestamp \<Rightarrow> nat \<Rightarrow> OrderObject option \<times> World" where
  "getShippingOrder w now orderId =
     (case getCachedOrder w now orderId ''shipping'' of
        Some cached \<Rightarrow> (Some cached, w)
      | None \<Rightarrow>
          (case shippingOrder_findUnique w orderId of
             (None, w1) \<Rightarrow> (None, w1)
           | (Some order, w1) \<Rightarrow> (Some order, cacheOrder w1 now orderId order ''shipping'')))"

definition getPurchaseOrder :: "World \<Rightarrow> timestamp \<Rightarrow> nat \<Rightarrow> OrderObject option \<times> World" where
  "getPurchaseOrder w now orderId =
     (case getCachedOrder w now orderId ''purchase'' of
        Some cached \<Rightarrow> (Some cached, w)
      | None \<Rightarrow>
          (case purchaseOrder_findUnique w orderId of
             (None, w1) \<Rightarrow> (None, w1)
           | (Some order, w1) \<Rightarrow> (Some order, cacheOrder w1 now orderId order ''purchase'')))"

definition updateShippingOrderStatus ::
  "World \<Rightarrow> timestamp \<Rightarrow> nat \<Rightarrow> OrderStatus \<Rightarrow> string option \<Rightarrow> nat option
     \<Rightarrow> OrderObject result \<times> World" where
  "updateShippingOrderStatus w now orderId newStatus comment adminId =
     (case getShippingOrder w now orderId of
        (None, w1) \<Rightarrow> (Inl (Error ''Order not found''), w1)
      | (Some currentOrder, w1) \<Rightarrow>
          (case shippingOrder_update w1 orderId
                  (\<lambda>r. r\<lparr>so_status := newStatus, so_updatedAt := now\<rparr>) of
             (Inl e, w2) \<Rightarrow> (Inl e, w2)
           | (Inr row, w2) \<Rightarrow>
               let updatedOrder = \<lparr>oo_row = ShippingRow row, oo_statusHistory = None,
                                   oo_transactions = None, oo_type = None,
                                   oo_dates = prisma_dates\<rparr>;
                   w3 = createStatusHistory w2 now orderId ''shipping''
                          (Some (row_status (oo_row currentOrder)))
                          (OrderStatus_str newStatus) comment adminId;
                   w4 = cacheOrder w3 now orderId updatedOrder ''shipping''
               in (Inr updatedOrder, w4)))"

definition updatePurchaseOrderStatus ::
  "World \<Rightarrow> timestamp \<Rightarrow> nat \<Rightarrow> PurchaseOrderStatus \<Rightarrow> string option \<Rightarrow> nat option
     \<Rightarrow> OrderObject result \<times> World" where
  "updatePurchaseOrderStatus w now orderId newStatus comment adminId =
     (case getPurchaseOrder w now orderId of
        (None, w1) \<Rightarrow> (Inl (Error ''Order not found''), w1)
      | (Some currentOrder, w1) \<Rightarrow>
          (case purchaseOrder_update w1 orderId
                  (\<lambda>r. r\<lparr>po_status := newStatus, po_updatedAt := now\<rparr>) of
             (Inl e, w2) \<Rightarrow> (Inl e, w2)
           | (Inr row, w2) \<Rightarrow>
               let updatedOrder = \<lparr>oo_row = PurchaseRow row, oo_statusHistory = None,
                                   oo_transactions = None, oo_type = None,
                                   oo_dates = prisma_dates\<rparr>;
                   w3 = createStatusHistory w2 now orderId ''purchase''
                          (Some (row_status (oo_row currentOrder)))
                          (PurchaseOrderStatus_str newStatus) comment adminId;
                   w4 = cacheOrder w3 now orderId updatedOrder ''purchase''
               in (Inr updatedOrder, w4)))"

definition addTrackingNumber ::
  "World \<Rightarrow> nat \<Rightarrow> string \<Rightarrow> string \<Rightarrow> unit result \<times> World" where
  "addTrackingNumber w orderId trackNumber orderType =
     (if orderType = ''shipping'' then
        (case shippingOrder_update w orderId (\<lambda>r. r\<lparr>so_trackNumber := Some trackNumber\<rparr>) of
           (Inl e, w1) \<Rightarrow> (Inl e, w1)
         | (Inr _, w1) \<Rightarrow> clearOrderCache w1 orderId orderType)
      else
        (case purchaseOrder_update w orderId (\<lambda>r. r\<lparr>po_trackNumber := Some trackNumber\<rparr>) of
           (Inl e, w1) \<Rightarrow> (Inl e, w1)
         | (Inr _, w1) \<Rightarrow> clearOrderCache w1 orderId orderType))"

section \<open>PaymentService\<close>

datatype operation = OpAdd | OpSubtract

definition createTransaction :: "World \<Rightarrow> timestamp \<Rightarrow> TransactionData \<Rightarrow> Transaction \<times> World" where
  "createTransaction w now d =
     (case transaction_create w now d T_PENDING of
        (txn, w1) \<Rightarrow>
          let cacheKey = ''transaction:'' @ show_nat (tx_id txn)
          in (txn,
              w1\<lparr>r_transaction := setWithTTL (r_transaction w1) now cacheKey
                                      (json_transaction txn) TTL_MEDIUM\<rparr>))"

definition updateUserBalance ::
  "World \<Rightarrow> nat \<Rightarrow> jsnum \<Rightarrow> operation \<Rightarrow> unit result \<times> World" where
  "updateUserBalance w userId amount operation =
     (case user_findUnique w userId of
        (None, w1) \<Rightarrow> (Inl (Error ''User not found''), w1)
      | (Some currentUser, w1) \<Rightarrow>
          let newBalance = (if operation = OpAdd then js_add (user_balance currentUser) amount
                            else js_sub (user_balance currentUser) amount)
          in if newBalance < number 0 \<and> operation = OpSubtract
             then (Inl (Error ''Insufficient balance''), w1)
             else
               (case user_update w1 userId (\<lambda>u. u\<lparr>user_balance := newBalance\<rparr>) of
                  (Inl e, w2) \<Rightarrow> (Inl e, w2)
                | (Inr _, w2) \<Rightarrow>
                    (let userCacheKey = USER_PROFILE (user_telegramId currentUser)
                     in (case del (r_user_profile w2) userCacheKey of
                           Inl e \<Rightarrow> (Inl e, w2)
                         | Inr c \<Rightarrow> (Inr (), w2\<lparr>r_user_profile := c\<rparr>)))))"

definition processCompletedTransaction :: "World \<Rightarrow> Transaction \<Rightarrow> unit result \<times> World" where
  "processCompletedTransaction w txn =
     (case tx_type txn of
        PAYMENT \<Rightarrow> updateUserBalance w (tx_userId txn) (tx_amount txn) OpAdd
      | REFUND \<Rightarrow> updateUserBalance w (tx_userId txn) (tx_amount txn) OpAdd
      | BONUS \<Rightarrow> updateUserBalance w (tx_userId txn) (tx_amount txn) OpAdd
      | WITHDRAWAL \<Rightarrow>
          updateUserBalance w (tx_userId txn) (tx_amount txn) OpSubtract
      | _ \<Rightarrow> (Inr (), w))"

definition updateTransactionStatus ::
  "World \<Rightarrow> timestamp \<Rightarrow> nat \<Rightarrow> TransactionStatus \<Rightarrow> string option
     \<Rightarrow> Transaction result \<times> World" where
  "updateTransactionStatus w now transactionId status metadata =
     (case transaction_update w transactionId
             (\<lambda>t. t\<lparr>tx_status := status, tx_updatedAt := now,
                     tx_completedAt := (if status = T_COMPLETED then Some now
                                        else tx_completedAt t),
                     tx_metadata := (case metadata of None \<Rightarrow> tx_metadata t
                                     | Some m \<Rightarrow> Some m)\<rparr>) of
        (Inl e, w1) \<Rightarrow> (Inl e, w1)
      | (Inr txn, w1) \<Rightarrow>
          (case (if status = T_COMPLETED then processCompletedTransaction w1 txn
                 else (Inr (), w1)) of
             (Inl e, w2) \<Rightarrow> (Inl e, w2)
           | (Inr _, w2) \<Rightarrow>
               let cacheKey = ''transaction:'' @ show_nat transactionId
               in (Inr txn,
                   w2\<lparr>r_transaction := setWithTTL (r_transaction w2) now cacheKey
                                           (json_transaction txn) TTL_MEDIUM\<rparr>)))"

section \<open>Runs of the order lifecycle\<close>

text \<open>
  A run of \<open>transition\<close> calls on one order, each with its instant, new status,
  comment and acting admin; \<open>None\<close> as soon as one call throws.
\<close>

fun shippingTransitions ::
  "World \<Rightarrow> nat \<Rightarrow> (timestamp \<times> OrderStatus \<times> string option \<times> nat option) list
     \<Rightarrow> World option" where
  "shippingTransitions w orderId [] = Some w"
| "shippingTransitions w orderId ((now, newStatus, comment, adminId) # calls) =
     (case updateShippingOrderStatus w now orderId newStatus comment adminId of
        (Inl e, w1) \<Rightarrow> None
      | (Inr _, w1) \<Rightarrow> shippingTransitions w1 orderId calls)"

fun purchaseTransitions ::
  "World \<Rightarrow> nat \<Rightarrow> (timestamp \<times> PurchaseOrderStatus \<times> string option \<times> nat option) list
     \<Rightarrow> World option" where
  "purchaseTransitions w orderId [] = Some w"
| "purchaseTransitions w orderId ((now, newStatus, comment, adminId) # calls) =
     (case updatePurchaseOrderStatus w now orderId newStatus comment adminId of
        (Inl e, w1) \<Rightarrow> None
      | (Inr _, w1) \<Rightarrow> purchaseTransitions w1 orderId calls)"

text \<open>
  Each history row but the first names as its old status the new status of the row
  before it.
\<close>

fun chained :: "OrderStatusHistory list \<Rightarrow> bool" where
  "chained [] = True"
| "chained [h] = True"
| "chained (h # h' # hs) = (h_oldStatus h' = Some (h_newStatus h) \<and> chained (h' # hs))"

fun row_id :: "order_row \<Rightarrow> nat" where
  "row_id (ShippingRow r) = so_id r"
| "row_id (PurchaseRow r) = po_id r"

text \<open>
  The audit trail of one order is sound: the order exists, its history starts with the
  row that \<open>create\<close> writes, is chained, and ends in the status that the order row
  holds; and a cache entry of the order's kind under its key shows that status too.
\<close>

definition shipping_trail :: "World \<Rightarrow> nat \<Rightarrow> bool" where
  "shipping_trail w orderId =
     (case find (\<lambda>r. so_id r = orderId) (db_shippingOrder w) of
        None \<Rightarrow> False
      | Some row \<Rightarrow>
          (let hs = statusHistory_of w orderId ''shipping''
           in hs \<noteq> [] \<and> h_oldStatus (hd hs) = None \<and> h_newStatus (hd hs) = ''CREATED'' \<and>
              chained hs \<and> h_newStatus (last hs) = OrderStatus_str (so_status row) \<and>
              (case r_order w (ORDER_DETAILS orderId) of
                 None \<Rightarrow> True
               | Some (cached, expiry) \<Rightarrow>
                   oo_type cached \<noteq> Some ''shipping'' \<or>
                   row_status (oo_row cached) = OrderStatus_str (so_status row))))"

definition purchase_trail :: "World \<Rightarrow> nat \<Rightarrow> bool" where
  "purchase_trail w orderId =
     (case find (\<lambda>r. po_id r = orderId) (db_purchaseOrder w) of
        None \<Rightarrow> False
      | Some row \<Rightarrow>
          (let hs = statusHistory_of w orderId ''purchase''
           in hs \<noteq> [] \<and> h_oldStatus (hd hs) = None \<and> h_newStatus (hd hs) = ''CREATED'' \<and>
              chained hs \<and> h_newStatus (last hs) = PurchaseOrderStatus_str (po_status row) \<and>
              (case r_order w (ORDER_DETAILS orderId) of
                 None \<Rightarrow> True
               | Some (cached, expiry) \<Rightarrow>
                   oo_type cached \<noteq> Some ''purchase'' \<or>
                   row_status (oo_row cached) = PurchaseOrderStatus_str (po_status row))))"

text \<open>
  The identifiers in use lie below the counters of their tables: no order row and no
  history row carries an identifier that \<open>create\<close> is still to hand out.
\<close>

definition ids_below_seq :: "World \<Rightarrow> bool" where
  "ids_below_seq w =
     (list_all (\<lambda>r. so_id r \<le> shippingOrder_seq w) (db_shippingOrder w) \<and>
      list_all (\<lambda>r. po_id r \<le> purchaseOrder_seq w) (db_purchaseOrder w) \<and>
      list_all (\<lambda>h. (h_orderType h = ''shipping'' \<longrightarrow> h_orderId h \<le> shippingOrder_seq w) \<and>
                     (h_orderType h = ''purchase'' \<longrightarrow> h_orderId h \<le> purchaseOrder_seq w))
        (db_orderStatusHistory w))"

section \<open>Concrete states\<close>

definition world0 :: World where
  "world0 =
     \<lparr>db_adminDashboardToken = [],
      db_admin = [\<lparr>admin_id = 7, admin_isActive = True\<rparr>, \<lparr>admin_id = 8, admin_isActive = False\<rparr>],
      db_user = [\<lparr>user_id = 1, user_telegramId = 100, user_balance = number 50\<rparr>],
      db_shippingOrder = [], db_purchaseOrder = [], db_orderStatusHistory = [], db_transaction = [],
      shippingOrder_seq = 0, purchaseOrder_seq = 0, transaction_seq = 0, dbReads = 0,
      r_dashboard = Map.empty, r_pending = Map.empty, r_web_session = Map.empty,
      r_refresh = Map.empty, r_order = Map.empty, r_transaction = Map.empty,
      r_user_profile = Map.empty\<rparr>"

text \<open>Admin 7 asks for dashboard access at instant 0 and again one second later.\<close>

definition issued_once :: World where
  "issued_once = snd (generateDashboardAccess world0 0 ''https://d'' ''K1'' ''T1'' 7 None)"

definition issued_twice :: World where
  "issued_twice = snd (generateDashboardAccess issued_once 1000 ''https://d'' ''K2'' ''T2'' 7 None)"

text \<open>
  The first token is validated one second after it was issued and consumed one second
  later.
\<close>

definition validated :: World where
  "validated = snd (validateDashboardToken issued_once 1000 ''T1'' ''K1'')"

definition consumed :: World where
  "consumed = snd (markTokenAsUsed validated 2000 ''T1'' None)"

text \<open>
  A web session of admin 7 created at instant 0 and validated six days later
  (518400000 ms); eight days are 691200000 ms.
\<close>

definition session_created :: World where
  "session_created = snd (createWebSession world0 0 ''S1'' ''A1'' ''R1'' 7 None None)"

definition session_refreshed :: World where
  "session_refreshed = snd (validateWebSession session_created 518400000 ''S1'')"

text \<open>
  The same first issue when the insert of the row takes five milliseconds: the row and
  the mirror expire at 900000, and the cache holds the mirror until 900005.
\<close>

definition issued_slowly :: World where
  "issued_slowly = snd (generateDashboardAccess_at world0 0 5 ''https://d'' ''K1'' ''T1'' 7 None)"

text \<open>
  A payment of 100, a withdrawal of 80 and a withdrawal of 30 for user 1, whose balance
  is 50.
\<close>

definition payment100 :: TransactionData where
  "payment100 = \<lparr>txd_userId = 1, txd_orderId = None, txd_orderType = None, txd_amount = number 100,
                  txd_type = PAYMENT, txd_description = None, txd_metadata = None\<rparr>"

definition withdrawal80 :: TransactionData where
  "withdrawal80 = payment100\<lparr>txd_amount := number 80, txd_type := WITHDRAWAL\<rparr>"

definition withdrawal30 :: TransactionData where
  "withdrawal30 = payment100\<lparr>txd_amount := number 30, txd_type := WITHDRAWAL\<rparr>"

definition payment_created :: World where
  "payment_created = snd (createTransaction world0 0 payment100)"

definition payment_completed :: World where
  "payment_completed = snd (updateTransactionStatus payment_created 1000 1 T_COMPLETED None)"

definition payment_replayed :: World where
  "payment_replayed = snd (updateTransactionStatus payment_completed 2000 1 T_COMPLETED None)"

definition withdrawal_created :: World where
  "withdrawal_created = snd (createTransaction world0 0 withdrawal80)"

definition withdrawal30_created :: World where
  "withdrawal30_created = snd (createTransaction world0 0 withdrawal30)"

text \<open>The shipping order of the spec's scenario (weight 5, cost 1000) and a purchase.\<close>

definition parcel :: ShippingOrderData where
  "parcel = \<lparr>sod_userId = 1, sod_countryFromId = 1, sod_weight = number 5, sod_declaredValue = None,
              sod_declaredCurrency = None, sod_description = None, sod_recipientName = ''R'',
              sod_recipientPhone = ''P'', sod_recipientAddress = ''A'', sod_totalCost = number 1000\<rparr>"

definition purchase :: PurchaseOrderData where
  "purchase = \<lparr>pd_userId = 1, pd_countryId = 1, pd_productId = None, pd_productUrl = None,
                pd_productName = ''N'', pd_quantity = 3, pd_productPrice = number 200,
                pd_productCurrency = None, pd_commission = number 15, pd_prepaymentAmount = number 0,
                pd_customerNotes = None\<rparr>"

text \<open>
  A purchase priced at the JavaScript literals \<open>0.1\<close> and \<open>0.2\<close>, the doubles
  nearest to one tenth and to one fifth.
\<close>

definition small_purchase :: PurchaseOrderData where
  "small_purchase = purchase\<lparr>pd_productPrice := number (1 / 10), pd_commission := number (1 / 5)\<rparr>"

definition parcel_created :: World where
  "parcel_created = snd (createShippingOrder world0 0 parcel)"

definition purchase_created :: World where
  "purchase_created = snd (createPurchaseOrder world0 0 purchase)"

text \<open>
  A state in which every cache deletion of the services is reached: a pending-access
  key for admin 7, a session past its \<open>expiresAt\<close> and a session of the inactive
  admin 8, both still held by the cache, and one order of each kind.
\<close>

definition deletions_due :: World where
  "deletions_due =
     parcel_created
       \<lparr>db_purchaseOrder := db_purchaseOrder purchase_created,
        r_pending := [''admin:pending:7'' \<mapsto> (\<lparr>pv_truthy = True, pv_string = ''T1''\<rparr>, 900000)],
        r_web_session :=
          [''admin:web_session:S1'' \<mapsto>
             (\<lparr>sd_sessionId = ''S1'', sd_adminId = 7, sd_accessToken = ''A1'',
               sd_refreshToken = ''R1'', sd_expiresAt = 100, sd_createdAt = 0,
               sd_lastActivity = 50, sd_ipAddress = None, sd_userAgent = None\<rparr>, 900000),
           ''admin:web_session:S2'' \<mapsto>
             (\<lparr>sd_sessionId = ''S2'', sd_adminId = 8, sd_accessToken = ''A2'',
               sd_refreshToken = ''R2'', sd_expiresAt = 900000, sd_createdAt = 0,
               sd_lastActivity = 50, sd_ipAddress = None, sd_userAgent = None\<rparr>, 900000)]\<rparr>"

section \<open>Properties of the numbers\<close>

text \<open>
  \<open>flog2\<close> brackets its argument between two powers of two; every rounded value is a
  multiple of \<open>tiny\<close>, so the difference of two distinct doubles is at least \<open>tiny\<close>
  in absolute value and does not round to zero; integers below \<open>2 ^ 53\<close> are doubles.
\<close>

lemma huge_pos: "0 < huge"
  by (simp add: huge_def)

lemma tiny_pos: "0 < tiny"
  by (simp add: tiny_def)

lemma ilog2_bounds: "0 < n \<Longrightarrow> 2 ^ ilog2 n \<le> n \<and> n < 2 ^ Suc (ilog2 n)"
proof (induction n rule: ilog2.induct)
  case (1 n)
  show ?case
  proof (cases "n < 2")
    case True
    with "1.prems" have "n = 1" by simp
    then show ?thesis by (simp add: ilog2.simps)
  next
    case False
    then have "0 < n div 2" by simp
    with "1.IH" False have ih: "2 ^ ilog2 (n div 2) \<le> n div 2" "n div 2 < 2 ^ Suc (ilog2 (n div 2))"
      by simp_all
    have s: "ilog2 n = Suc (ilog2 (n div 2))"
      using False by (subst ilog2.simps) simp
    from ih show ?thesis
      unfolding s by (simp; linarith)
  qed
qed

lemma ilog2_bounds_rat:
  assumes "0 < n"
  shows "(2 :: rat) ^ ilog2 n \<le> of_nat n" and "(of_nat (Suc n) :: rat) \<le> 2 ^ Suc (ilog2 n)"
proof -
  have "2 ^ ilog2 n \<le> n" using ilog2_bounds [OF assms] by simp
  then have "(of_nat (2 ^ ilog2 n) :: rat) \<le> of_nat n" by (simp only: of_nat_le_iff)
  then show "(2 :: rat) ^ ilog2 n \<le> of_nat n" by simp
  have "Suc n \<le> 2 ^ Suc (ilog2 n)" using ilog2_bounds [OF assms] by simp
  then have "(of_nat (Suc n) :: rat) \<le> of_nat (2 ^ Suc (ilog2 n))" by (simp only: of_nat_le_iff)
  then show "(of_nat (Suc n) :: rat) \<le> 2 ^ Suc (ilog2 n)" by simp
qed

lemma flog2_bounds:
  assumes "0 < x"
  shows "2 powi flog2 x \<le> x" and "x < 2 powi (flog2 x + 1)"
proof -
  show "2 powi flog2 x \<le> x"
  proof (cases "1 \<le> x")
    case True
    then have n: "0 < nat \<lfloor>x\<rfloor>" by simp
    have "(2 :: rat) ^ ilog2 (nat \<lfloor>x\<rfloor>) \<le> of_nat (nat \<lfloor>x\<rfloor>)"
      by (rule ilog2_bounds_rat(1) [OF n])
    also have "\<dots> \<le> x" using True by simp
    finally show ?thesis using True by (simp add: flog2_def)
  next
    case False
    let ?m = "nat \<lceil>1 / x\<rceil> - 1"
    from False assms have y: "1 < 1 / x" by simp
    then have c: "2 \<le> \<lceil>1 / x\<rceil>" by linarith
    then have m: "0 < ?m" by simp
    from c have "0 < nat \<lceil>1 / x\<rceil>" by linarith
    then have sm: "Suc ?m = nat \<lceil>1 / x\<rceil>" by (simp only: One_nat_def Suc_pred)
    have "1 / x \<le> of_int \<lceil>1 / x\<rceil>" by simp
    also have "\<dots> = of_nat (nat \<lceil>1 / x\<rceil>)" using c by simp
    also have "\<dots> = of_nat (Suc ?m)" by (simp only: sm)
    also have "\<dots> \<le> (2 :: rat) ^ Suc (ilog2 ?m)"
      by (rule ilog2_bounds_rat(2) [OF m])
    finally have "1 / x \<le> 2 ^ Suc (ilog2 ?m)" .
    then have "1 / 2 ^ Suc (ilog2 ?m) \<le> x"
      using assms by (simp add: field_simps)
    moreover have "flog2 x = - int (Suc (ilog2 ?m))"
      using False by (simp add: flog2_def)
    moreover have "(2 :: rat) powi (- int (Suc (ilog2 ?m))) = 1 / 2 ^ Suc (ilog2 ?m)"
      by (simp only: power_int_minus_divide power_int_of_nat)
    ultimately show ?thesis
      by (simp only:)
  qed
  show "x < 2 powi (flog2 x + 1)"
  proof (cases "1 \<le> x")
    case True
    then have n: "0 < nat \<lfloor>x\<rfloor>" by simp
    have "x < of_int (\<lfloor>x\<rfloor> + 1)" by linarith
    also have "\<dots> = of_nat (Suc (nat \<lfloor>x\<rfloor>))" using True by simp
    also have "\<dots> \<le> (2 :: rat) ^ Suc (ilog2 (nat \<lfloor>x\<rfloor>))"
      by (rule ilog2_bounds_rat(2) [OF n])
    finally have "x < 2 ^ Suc (ilog2 (nat \<lfloor>x\<rfloor>))" .
    moreover have "flog2 x + 1 = int (Suc (ilog2 (nat \<lfloor>x\<rfloor>)))"
      using True by (simp add: flog2_def)
    ultimately show ?thesis by (simp only: power_int_of_nat)
  next
    case False
    let ?m = "nat \<lceil>1 / x\<rceil> - 1"
    from False assms have y: "1 < 1 / x" by simp
    then have c: "2 \<le> \<lceil>1 / x\<rceil>" by linarith
    then have m: "0 < ?m" by simp
    have "(2 :: rat) ^ ilog2 ?m \<le> of_nat ?m"
      by (rule ilog2_bounds_rat(1) [OF m])
    also have "\<dots> = of_int (\<lceil>1 / x\<rceil> - 1)"
    proof -
      from c have "int ?m = \<lceil>1 / x\<rceil> - 1" by linarith
      then show ?thesis by (metis of_int_of_nat_eq)
    qed
    also have "\<dots> < 1 / x" by linarith
    finally have "2 ^ ilog2 ?m < 1 / x" .
    then have "x < 1 / 2 ^ ilog2 ?m"
      using assms by (simp add: field_simps)
    moreover have "flog2 x + 1 = - int (ilog2 ?m)"
      using False by (simp add: flog2_def)
    moreover have "(2 :: rat) powi (- int (ilog2 ?m)) = 1 / 2 ^ ilog2 ?m"
      by (simp only: power_int_minus_divide power_int_of_nat)
    ultimately show ?thesis
      by (simp only:)
  qed
qed

lemma rhe_of_int [simp]: "rhe (of_int m) = m"
  by (simp add: rhe_def)

lemma rhe_le_minus_one: "x \<le> - 1 \<Longrightarrow> rhe x \<le> - 1"
proof -
  assume x: "x \<le> - 1"
  then have f: "\<lfloor>x\<rfloor> \<le> - 1" by linarith
  show ?thesis
  proof (cases "\<lfloor>x\<rfloor> = - 1")
    case True
    then have "- 1 \<le> x" by linarith
    with x have "x = of_int (- 1)" by simp
    then show ?thesis by (simp only: rhe_of_int)
  next
    case False
    with f have "\<lfloor>x\<rfloor> \<le> - 2" by linarith
    moreover have "rhe x = \<lfloor>x\<rfloor> \<or> rhe x = \<lfloor>x\<rfloor> + 1"
      by (simp add: rhe_def Let_def)
    ultimately show ?thesis by linarith
  qed
qed

lemma rnd_0 [simp]: "rnd 0 = 0"
  by (simp add: rnd_def)

lemma powi_split: "- 1074 \<le> q \<Longrightarrow> (2 :: rat) powi q = of_int (2 ^ nat (q + 1074)) * tiny"
proof -
  assume q: "- 1074 \<le> q"
  have "(2 :: rat) powi q = 2 powi ((q + 1074) + (- 1074))" by simp
  also have "\<dots> = 2 powi (q + 1074) * 2 powi (- 1074)"
    by (rule power_int_add) simp
  also have "(2 :: rat) powi (q + 1074) = of_int (2 ^ nat (q + 1074))"
    using q by (simp add: power_int_def)
  finally show ?thesis by (simp only: tiny_def)
qed

lemma rnd_multiple: "\<exists>k :: int. rnd x = of_int k * tiny"
proof (cases "x = 0")
  case True
  then show ?thesis by (simp add: exI [of _ 0])
next
  case False
  define q where "q = max (flog2 \<bar>x\<bar>) (- 1022) - 52"
  have q: "- 1074 \<le> q" by (simp add: q_def)
  have "rnd x = of_int (rhe (x / 2 powi q)) * 2 powi q"
    using False by (simp add: rnd_def q_def Let_def)
  also have "\<dots> = of_int (rhe (x / 2 powi q) * 2 ^ nat (q + 1074)) * tiny"
    by (simp only: powi_split [OF q] of_int_mult mult.assoc)
  finally show ?thesis by blast
qed

lemma rnd_negative:
  assumes "x \<le> - tiny"
  shows "rnd x < 0"
proof -
  from assms tiny_pos have x: "x < 0" by linarith
  define e where "e = flog2 \<bar>x\<bar>"
  define q where "q = max e (- 1022) - 52"
  have ax: "0 < \<bar>x\<bar>" using x by simp
  have lo: "2 powi e \<le> \<bar>x\<bar>" unfolding e_def by (rule flog2_bounds(1) [OF ax])
  have "2 powi q \<le> \<bar>x\<bar>"
  proof (cases "- 1022 \<le> e")
    case True
    then have "q \<le> e" by (simp add: q_def)
    then have "(2 :: rat) powi q \<le> 2 powi e" by (simp add: power_int_increasing)
    with lo show ?thesis by simp
  next
    case False
    then have "q = - 1074" by (simp add: q_def)
    then have "(2 :: rat) powi q = tiny" by (simp only: tiny_def)
    with assms x show ?thesis by simp
  qed
  then have "x \<le> - (2 powi q)" using x by simp
  then have "x / 2 powi q \<le> - 1"
    by (simp add: field_simps)
  then have "rhe (x / 2 powi q) \<le> - 1" by (rule rhe_le_minus_one)
  then have "(of_int (rhe (x / 2 powi q)) :: rat) \<le> of_int (- 1)"
    by (simp only: of_int_le_iff)
  then have "(of_int (rhe (x / 2 powi q)) :: rat) < 0" by simp
  then have "of_int (rhe (x / 2 powi q)) * (2 :: rat) powi q < 0"
    by (simp add: mult_neg_pos)
  then show ?thesis
    using x by (simp add: rnd_def q_def e_def Let_def)
qed

lemma rat_of_rnd:
  "\<bar>rnd x\<bar> < huge \<Longrightarrow> rat_of_double (double_of_rat (rnd x)) = rnd x"
  by (simp add: double_of_rat_inverse)

lemma double_difference_negative:
  assumes "rat_of_double a < rat_of_double b"
  shows "rnd (rat_of_double a - rat_of_double b) < 0"
proof -
  have "rat_of_double a \<in> range rnd" "rat_of_double b \<in> range rnd"
    using rat_of_double [of a] rat_of_double [of b] by simp_all
  then obtain ka kb :: int where
    k: "rat_of_double a = of_int ka * tiny" "rat_of_double b = of_int kb * tiny"
    using rnd_multiple by (metis imageE)
  from assms k tiny_pos have "(of_int ka :: rat) < of_int kb"
    by (simp only: mult_less_cancel_right_pos)
  then have "ka - kb \<le> - 1" by simp
  then have "(of_int (ka - kb) :: rat) \<le> of_int (- 1)"
    by (simp only: of_int_le_iff)
  then have "of_int (ka - kb) * tiny \<le> of_int (- 1) * tiny"
    using tiny_pos by (simp only: mult_le_cancel_right_pos)
  then have "rat_of_double a - rat_of_double b \<le> - tiny"
    by (simp add: k left_diff_distrib)
  then show ?thesis by (rule rnd_negative)
qed

lemma number_0: "number 0 = Fin (double_of_rat 0)"
  using huge_pos by (simp add: number_def)

lemma rat_of_double_0: "rat_of_double (double_of_rat 0) = 0"
  using rat_of_rnd [of 0] huge_pos by simp

lemma number_negative: "rnd x < 0 \<Longrightarrow> number x < number 0"
  using huge_pos
  by (auto simp add: number_def Let_def less_jsnum_def number_0 rat_of_double_0 rat_of_rnd abs_if)

lemma less_imp_sub_negative: "a < b \<Longrightarrow> js_sub a b < number 0"
proof -
  assume l: "a < b"
  have fin: "number (rat_of_double x - rat_of_double y) < number 0"
    if "rat_of_double x < rat_of_double y" for x y
    using that by (intro number_negative double_difference_negative)
  have inf: "NInf < number 0" by (simp add: less_jsnum_def number_0)
  show ?thesis
    using l fin inf
    by (cases a; cases b)
       (auto simp add: less_jsnum_def js_sub_def number_0)
qed


lemma rnd_of_int:
  assumes "\<bar>n\<bar> < 2 ^ 53"
  shows "rnd (of_int n) = of_int n"
proof (cases "n = 0")
  case True
  then show ?thesis by simp
next
  case False
  define e where "e = flog2 \<bar>of_int n\<bar>"
  have "1 \<le> \<bar>n\<bar>" using False by simp
  then have "(of_int 1 :: rat) \<le> of_int \<bar>n\<bar>" by (simp only: of_int_le_iff)
  then have a: "(1 :: rat) \<le> \<bar>of_int n\<bar>" by simp
  then have pos: "(0 :: rat) < \<bar>of_int n\<bar>" by linarith
  have e0: "0 \<le> e" using a by (simp add: e_def flog2_def)
  have lo: "2 powi e \<le> \<bar>of_int n :: rat\<bar>" unfolding e_def by (rule flog2_bounds(1) [OF pos])
  have "(of_int \<bar>n\<bar> :: rat) < of_int (2 ^ 53)" using assms by (simp only: of_int_less_iff)
  then have up: "\<bar>of_int n :: rat\<bar> < 2 powi 53" by simp
  have e52: "e \<le> 52"
  proof (rule ccontr)
    assume "\<not> e \<le> 52"
    then have "53 \<le> e" by simp
    then have "(2 :: rat) powi 53 \<le> 2 powi e" by (rule power_int_increasing) simp
    with lo up show False by linarith
  qed
  define k where "k = nat (52 - e)"
  have q: "max e (- 1022) - 52 = - int k" using e0 e52 by (simp add: k_def)
  have p: "(2 :: rat) powi (- int k) = 1 / 2 ^ k"
    by (simp only: power_int_minus_divide power_int_of_nat)
  have "(of_int n :: rat) / (1 / 2 ^ k) = of_int (n * 2 ^ k)" by simp
  then have "rhe (of_int n / (1 / 2 ^ k)) = n * 2 ^ k" by (simp only: rhe_of_int)
  then have "rnd (of_int n) = of_int (n * 2 ^ k) * (1 / 2 ^ k)"
    using False by (simp add: rnd_def Let_def e_def [symmetric] q p del: of_int_mult)
  then show ?thesis by simp
qed

lemma small_less_huge: "\<bar>n\<bar> < 2 ^ 53 \<Longrightarrow> \<bar>of_int n :: rat\<bar> < huge"
proof -
  assume "\<bar>n\<bar> < 2 ^ 53"
  then have "(of_int \<bar>n\<bar> :: rat) < of_int (2 ^ 53)" by (simp only: of_int_less_iff)
  then have "\<bar>of_int n :: rat\<bar> < 2 ^ 53" by simp
  also have "(2 :: rat) ^ 53 \<le> 2 ^ 1024" by (rule power_increasing) simp_all
  finally show ?thesis by (simp only: huge_def)
qed

lemma number_rnd: "\<bar>rnd x\<bar> < huge \<Longrightarrow> number x = Fin (double_of_rat (rnd x))"
  by (auto simp add: number_def Let_def abs_if split: if_splits)

lemma finite_value_number: "\<bar>rnd x\<bar> < huge \<Longrightarrow> finite_value (number x) = Some (rnd x)"
  by (simp add: number_rnd finite_value_def rat_of_rnd)

lemma finite_value_of_int:
  "\<bar>n\<bar> < 2 ^ 53 \<Longrightarrow> finite_value (number (of_int n)) = Some (of_int n)"
  using finite_value_number [of "of_int n"] by (simp add: rnd_of_int small_less_huge)

lemma finite_value_add:
  "finite_value a = Some x \<Longrightarrow> finite_value b = Some y \<Longrightarrow> js_add a b = number (x + y)"
  by (cases a; cases b) (simp_all add: finite_value_def js_add_def)

lemma finite_value_sub:
  "finite_value a = Some x \<Longrightarrow> finite_value b = Some y \<Longrightarrow> js_sub a b = number (x - y)"
  by (cases a; cases b) (simp_all add: finite_value_def js_sub_def)

lemma finite_value_less:
  "finite_value a = Some x \<Longrightarrow> finite_value b = Some y \<Longrightarrow> a < b \<longleftrightarrow> x < y"
  by (cases a; cases b) (simp_all add: finite_value_def less_jsnum_def)

lemma add_numbers:
  "\<bar>m\<bar> < 2 ^ 53 \<Longrightarrow> \<bar>n\<bar> < 2 ^ 53 \<Longrightarrow>
     js_add (number (of_int m)) (number (of_int n)) = number (of_int (m + n))"
  using finite_value_add [OF finite_value_of_int finite_value_of_int, of m n] by simp

lemma sub_numbers:
  "\<bar>m\<bar> < 2 ^ 53 \<Longrightarrow> \<bar>n\<bar> < 2 ^ 53 \<Longrightarrow>
     js_sub (number (of_int m)) (number (of_int n)) = number (of_int (m - n))"
  using finite_value_sub [OF finite_value_of_int finite_value_of_int, of m n] by simp

lemma less_numbers:
  "\<bar>m\<bar> < 2 ^ 53 \<Longrightarrow> \<bar>n\<bar> < 2 ^ 53 \<Longrightarrow>
     number (of_int m) < number (of_int n) \<longleftrightarrow> m < n"
  using finite_value_less [OF finite_value_of_int finite_value_of_int, of m n] by simp

lemma rhe_nonneg: "0 \<le> x \<Longrightarrow> 0 \<le> rhe x"
proof -
  assume "0 \<le> x"
  then have "0 \<le> \<lfloor>x\<rfloor>" by simp
  moreover have "rhe x = \<lfloor>x\<rfloor> \<or> rhe x = \<lfloor>x\<rfloor> + 1"
    by (simp add: rhe_def Let_def)
  ultimately show ?thesis by linarith
qed

lemma rnd_nonneg: "0 \<le> x \<Longrightarrow> 0 \<le> rnd x"
proof -
  assume x: "0 \<le> x"
  have "0 \<le> of_int (rhe (x / 2 powi q)) * (2 :: rat) powi q" for q
  proof -
    have "0 \<le> x / 2 powi q" using x by simp
    then have "0 \<le> rhe (x / 2 powi q)" by (rule rhe_nonneg)
    then have "(0 :: rat) \<le> of_int (rhe (x / 2 powi q))" by simp
    then show ?thesis by simp
  qed
  then show ?thesis by (simp add: rnd_def Let_def)
qed

lemma number_nonneg: "0 \<le> rnd x \<Longrightarrow> \<not> number x < number 0"
  using huge_pos
  by (auto simp add: number_def Let_def less_jsnum_def number_0 rat_of_double_0 rat_of_rnd abs_if)

lemma le_imp_sub_not_negative: "a \<le> b \<Longrightarrow> \<not> js_sub b a < number 0"
proof -
  assume l: "a \<le> b"
  have fin: "\<not> number (rat_of_double y - rat_of_double x) < number 0"
    if "rat_of_double x \<le> rat_of_double y" for x y
    using that by (intro number_nonneg rnd_nonneg) simp
  have inf: "\<not> PInf < number 0" "\<not> NaN < number 0" "\<not> Fin d < Fin d" for d
    by (simp_all add: less_jsnum_def number_0)
  show ?thesis
    using l fin inf
    by (cases a; cases b)
       (auto simp add: less_eq_jsnum_def js_sub_def number_0)
qed

lemma le_numbers:
  "\<bar>m\<bar> < 2 ^ 53 \<Longrightarrow> \<bar>n\<bar> < 2 ^ 53 \<Longrightarrow>
     number (of_int m) \<le> number (of_int n) \<longleftrightarrow> m \<le> n"
proof -
  have "a \<le> b \<longleftrightarrow> x \<le> y" if "finite_value a = Some x" "finite_value b = Some y" for a b x y
    using that by (cases a; cases b) (simp_all add: finite_value_def less_eq_jsnum_def)
  from this [OF finite_value_of_int finite_value_of_int, of m n]
  show "\<bar>m\<bar> < 2 ^ 53 \<Longrightarrow> \<bar>n\<bar> < 2 ^ 53 \<Longrightarrow> ?thesis" by simp
qed

text \<open>The sums, differences and comparisons of the concrete states.\<close>

lemma add_50_100: "js_add (number 50) (number 100) = number 150"
  using add_numbers [of 50 100] by simp

lemma add_150_100: "js_add (number 150) (number 100) = number 250"
  using add_numbers [of 150 100] by simp

lemma add_200_15: "js_add (number 200) (number 15) = number 215"
  using add_numbers [of 200 15] by simp

lemma sub_50_30: "js_sub (number 50) (number 30) = number 20"
  using sub_numbers [of 50 30] by simp

lemma less_50_80: "number 50 < number 80"
  using less_numbers [of 50 80] by simp

lemma le_30_50: "number 30 \<le> number 50"
  using le_numbers [of 30 50] by simp

lemma sub_50_80_negative: "js_sub (number 50) (number 80) < number 0"
  using less_50_80 by (rule less_imp_sub_negative)

text \<open>
  The literals \<open>0.1\<close> and \<open>0.2\<close> and their sum: the sum of the two doubles is no
  double, and rounds up.
\<close>

lemma rnd_tenth: "rnd (1 / 10) = 3602879701896397 / 36028797018963968"
  by code_simp

lemma rnd_fifth: "rnd (1 / 5) = 3602879701896397 / 18014398509481984"
  by code_simp

lemma tenth_plus_fifth:
  "(3602879701896397 / 36028797018963968 + 3602879701896397 / 18014398509481984 :: rat) =
     10808639105689191 / 36028797018963968"
  by simp

lemma rnd_tenth_plus_fifth:
  "rnd (10808639105689191 / 36028797018963968) = 1351079888211149 / 4503599627370496"
  by code_simp

lemma below_one_less_huge: "\<bar>x\<bar> \<le> 1 \<Longrightarrow> \<bar>x\<bar> < huge"
proof -
  assume "\<bar>x\<bar> \<le> 1"
  also have "(1 :: rat) < 2 ^ 1024" by (rule one_less_power) simp_all
  finally show ?thesis by (simp only: huge_def)
qed

lemma finite_value_tenth:
  "finite_value (number (1 / 10)) = Some (3602879701896397 / 36028797018963968)"
  using finite_value_number [of "1 / 10"] below_one_less_huge [of "rnd (1 / 10)"]
  by (simp add: rnd_tenth)

lemma finite_value_fifth:
  "finite_value (number (1 / 5)) = Some (3602879701896397 / 18014398509481984)"
  using finite_value_number [of "1 / 5"] below_one_less_huge [of "rnd (1 / 5)"]
  by (simp add: rnd_fifth)

lemma finite_value_tenth_plus_fifth:
  "finite_value (js_add (number (1 / 10)) (number (1 / 5))) =
     Some (1351079888211149 / 4503599627370496)"
  using finite_value_number [of "10808639105689191 / 36028797018963968"]
        below_one_less_huge [of "rnd (10808639105689191 / 36028797018963968)"]
  by (simp add: finite_value_add [OF finite_value_tenth finite_value_fifth]
        rnd_tenth_plus_fifth)

text \<open>
  Beyond \<open>2 ^ 53\<close> the doubles are two apart: a balance of \<open>2 ^ 53\<close>
  (9007199254740992) to which 1 is added stays as it is.
\<close>

lemma flog2_2_53: "flog2 9007199254740992 = 53"
  by (simp add: flog2_def ilog2.simps)

lemma flog2_2_53_plus_1: "flog2 9007199254740993 = 53"
  by (simp add: flog2_def ilog2.simps)

lemma rnd_2_53: "rnd 9007199254740992 = 9007199254740992"
  using rhe_of_int [of 4503599627370496] by (simp add: rnd_def flog2_2_53)

lemma floor_half_2_53_plus_1: "\<lfloor>9007199254740993 / 2 :: rat\<rfloor> = 4503599627370496"
  using floor_divide_of_int_eq [of 9007199254740993 2, where ?'a = rat] by simp

lemma rnd_2_53_plus_1: "rnd 9007199254740993 = 9007199254740992"
  by (simp add: rnd_def flog2_2_53_plus_1 rhe_def floor_half_2_53_plus_1 Let_def)

lemma below_2_54_less_huge: "\<bar>x\<bar> < 2 ^ 54 \<Longrightarrow> \<bar>x\<bar> < huge"
proof -
  assume "\<bar>x\<bar> < 2 ^ 54"
  also have "(2 :: rat) ^ 54 \<le> 2 ^ 1024" by (rule power_increasing) simp_all
  finally show ?thesis by (simp only: huge_def)
qed

lemma finite_value_2_53: "finite_value (number 9007199254740992) = Some 9007199254740992"
  using finite_value_number [of 9007199254740992] below_2_54_less_huge [of "rnd 9007199254740992"]
  by (simp add: rnd_2_53)

lemma add_2_53_1: "js_add (number 9007199254740992) (number 1) = number 9007199254740992"
proof -
  have one: "finite_value (number 1) = Some 1"
    using finite_value_of_int [of 1] by simp
  have "js_add (number 9007199254740992) (number 1) = number (9007199254740992 + 1)"
    by (rule finite_value_add [OF finite_value_2_53 one])
  also have "\<dots> = number 9007199254740992"
    by (simp add: number_def rnd_2_53 rnd_2_53_plus_1)
  finally show ?thesis .
qed

text \<open>The JSON image keeps what the services read of an order.\<close>

lemma row_status_json_row [simp]: "row_status (json_row r) = row_status r"
  by (cases r) simp_all

lemma row_id_json_row [simp]: "row_id (json_row r) = row_id r"
  by (cases r) simp_all

lemma json_number_finite: "finite_value a = Some x \<Longrightarrow> json_number a = a"
  by (cases a) (simp_all add: finite_value_def)


section \<open>The cache deletions\<close>

lemma no_del_method: "''del'' \<notin> set RedisHelper_methods"
  by (simp add: RedisHelper_methods_def)

lemma del_raises: "del c key = Inl del_error"
  using no_del_method by (simp add: del_def)

lemma markTokenAsExpired_raises: "markTokenAsExpired w token = (Inl del_error, w)"
  by (simp add: markTokenAsExpired_def del_raises)

lemma markTokenAsUsed_raises:
  "markTokenAsUsed w now token ip =
     (Inl del_error,
      adminDashboardToken_updateMany w (\<lambda>t. adt_token t = token)
        (\<lambda>t. t\<lparr>adt_isUsed := True, adt_usedAt := Some now,
                adt_ipAddress := (case ip of None \<Rightarrow> adt_ipAddress t | Some a \<Rightarrow> Some a)\<rparr>))"
  by (simp add: markTokenAsUsed_def del_raises Let_def)

lemma validateWebSession_expired_raises:
  assumes "get (r_web_session w) now (''admin:web_session:'' @ sid) = Some s"
      and "sd_expiresAt s < now"
  shows "validateWebSession w now sid = (Inl del_error, w)"
  using assms by (simp add: validateWebSession_def del_raises Let_def)

lemma validateWebSession_inactive_raises:
  assumes "get (r_web_session w) now (''admin:web_session:'' @ sid) = Some s"
      and "\<not> sd_expiresAt s < now"
      and "\<forall>a. find (\<lambda>a. admin_id a = sd_adminId s) (db_admin w) = Some a \<longrightarrow> \<not> admin_isActive a"
  shows "validateWebSession w now sid = (Inl del_error, w\<lparr>dbReads := dbReads w + 1\<rparr>)"
  using assms
  by (auto simp add: validateWebSession_def del_raises Let_def admin_findUnique_def)

lemma revokeAdminTokens_raises:
  assumes "get (r_pending w) now (''admin:pending:'' @ show_nat adminId) = Some v"
      and "pv_truthy v"
  shows "fst (revokeAdminTokens w now adminId) = Inl del_error"
    and "r_dashboard (snd (revokeAdminTokens w now adminId)) = r_dashboard w"
    and "r_pending (snd (revokeAdminTokens w now adminId)) = r_pending w"
  using assms
  by (simp_all add: revokeAdminTokens_def del_raises Let_def adminDashboardToken_updateMany_def)

text \<open>A falsy value under the pending-access key ends the call before any deletion.\<close>

lemma revokeAdminTokens_falsy:
  assumes "get (r_pending w) now (''admin:pending:'' @ show_nat adminId) = Some v"
      and "\<not> pv_truthy v"
  shows "fst (revokeAdminTokens w now adminId) = Inr ()"
  using assms
  by (simp add: revokeAdminTokens_def Let_def adminDashboardToken_updateMany_def)

lemma addTrackingNumber_shipping_raises:
  assumes "find (\<lambda>r. so_id r = oid) (db_shippingOrder w) \<noteq> None"
  shows "fst (addTrackingNumber w oid tn ''shipping'') = Inl del_error"
    and "r_order (snd (addTrackingNumber w oid tn ''shipping'')) = r_order w"
  using assms
  by (auto simp add: addTrackingNumber_def clearOrderCache_def shippingOrder_update_def
        del_raises Let_def)

lemma addTrackingNumber_purchase_raises:
  assumes "find (\<lambda>r. po_id r = oid) (db_purchaseOrder w) \<noteq> None"
  shows "fst (addTrackingNumber w oid tn ''purchase'') = Inl del_error"
    and "r_order (snd (addTrackingNumber w oid tn ''purchase'')) = r_order w"
  using assms
  by (auto simp add: addTrackingNumber_def clearOrderCache_def purchaseOrder_update_def
        del_raises Let_def)

text \<open>
  C9. Class \<open>RedisHelper\<close> has no method \<open>del\<close>. So each operation that reaches
  its cache deletion throws a \<open>TypeError\<close> there and leaves the cache key in place:
  \<open>markTokenAsUsed\<close> and \<open>markTokenAsExpired\<close> always; \<open>validateWebSession\<close>
  when the session it finds is past \<open>expiresAt\<close>, or when the owning admin is
  missing or inactive; \<open>revokeAdminTokens\<close> when \<open>get\<close> returns a truthy value
  for the pending-access key of the admin; \<open>addTrackingNumber\<close> (through
  \<open>clearOrderCache\<close>) on an existing order of either kind.
\<close>

theorem missing_del_raises:
  "''del'' \<notin> set RedisHelper_methods \<and>
   fst (markTokenAsUsed w now token ip) = Inl del_error \<and>
   r_dashboard (snd (markTokenAsUsed w now token ip)) = r_dashboard w \<and>
   markTokenAsExpired w token = (Inl del_error, w) \<and>
   (get (r_web_session w) now (''admin:web_session:'' @ sid) = Some s \<and> sd_expiresAt s < now \<longrightarrow>
      validateWebSession w now sid = (Inl del_error, w)) \<and>
   (get (r_web_session w) now (''admin:web_session:'' @ sid') = Some s' \<and>
      \<not> sd_expiresAt s' < now \<and>
      (\<forall>a. find (\<lambda>a. admin_id a = sd_adminId s') (db_admin w) = Some a \<longrightarrow> \<not> admin_isActive a) \<longrightarrow>
      fst (validateWebSession w now sid') = Inl del_error \<and>
      r_web_session (snd (validateWebSession w now sid')) = r_web_session w) \<and>
   (get (r_pending w) now (''admin:pending:'' @ show_nat adminId) = Some v \<and> pv_truthy v \<longrightarrow>
      fst (revokeAdminTokens w now adminId) = Inl del_error \<and>
      r_dashboard (snd (revokeAdminTokens w now adminId)) = r_dashboard w \<and>
      r_pending (snd (revokeAdminTokens w now adminId)) = r_pending w) \<and>
   (find (\<lambda>r. so_id r = oid) (db_shippingOrder w) \<noteq> None \<longrightarrow>
      fst (addTrackingNumber w oid tn ''shipping'') = Inl del_error \<and>
      r_order (snd (addTrackingNumber w oid tn ''shipping'')) = r_order w) \<and>
   (find (\<lambda>r. po_id r = oid') (db_purchaseOrder w) \<noteq> None \<longrightarrow>
      fst (addTrackingNumber w oid' tn ''purchase'') = Inl del_error \<and>
      r_order (snd (addTrackingNumber w oid' tn ''purchase'')) = r_order w)"
proof -
  have used: "fst (markTokenAsUsed w now token ip) = Inl del_error"
    "r_dashboard (snd (markTokenAsUsed w now token ip)) = r_dashboard w"
    by (simp_all add: markTokenAsUsed_raises adminDashboardToken_updateMany_def)
  have inactive: "fst (validateWebSession w now sid') = Inl del_error \<and>
      r_web_session (snd (validateWebSession w now sid')) = r_web_session w"
    if "get (r_web_session w) now (''admin:web_session:'' @ sid') = Some s'"
      "\<not> sd_expiresAt s' < now"
      "\<forall>a. find (\<lambda>a. admin_id a = sd_adminId s') (db_admin w) = Some a \<longrightarrow> \<not> admin_isActive a"
    using validateWebSession_inactive_raises [OF that] by simp
  show ?thesis
    by (intro conjI impI; (elim conjE)?)
      (simp_all add: no_del_method used markTokenAsExpired_raises
         validateWebSession_expired_raises inactive revokeAdminTokens_raises
         addTrackingNumber_shipping_raises addTrackingNumber_purchase_raises)
qed

lemma show_nat_7: "show_nat 7 = ''7''"
  by (simp add: show_nat.simps)

lemmas order_defs = createShippingOrder_def createPurchaseOrder_def shippingOrder_create_def
  purchaseOrder_create_def createStatusHistory_def orderStatusHistory_create_def cacheOrder_def
  setWithTTL_def ORDER_DETAILS_def TTL_MEDIUM_def or_USD_def json_order_def Let_def

lemma parcel_created_rows:
  "db_shippingOrder parcel_created =
     [\<lparr>so_id = 1, so_userId = 1, so_countryFromId = 1, so_weight = number 5,
       so_declaredValue = None, so_declaredCurrency = ''USD'', so_description = None,
       so_recipientName = ''R'', so_recipientPhone = ''P'', so_recipientAddress = ''A'',
       so_totalCost = number 1000, so_status = CREATED, so_adminComment = None,
       so_trackNumber = None, so_createdAt = 0, so_updatedAt = 0\<rparr>]"
  by (simp add: parcel_created_def parcel_def world0_def order_defs)

lemma purchase_created_rows:
  "db_purchaseOrder purchase_created =
     [\<lparr>po_id = 1, po_userId = 1, po_countryId = 1, po_productId = None,
       po_productUrl = None, po_productName = ''N'', po_quantity = 3,
       po_productPrice = number 200,
       po_productCurrency = ''USD'', po_commission = number 15,
       po_totalCost = number 215, po_prepaymentAmount = number 0, po_status = P_CREATED, po_adminComment = None,
       po_customerNotes = None, po_trackNumber = None, po_createdAt = 0, po_updatedAt = 0\<rparr>]"
  by (simp add: purchase_created_def purchase_def world0_def order_defs add_200_15)

text \<open>The same at the state \<open>deletions_due\<close>, where every such deletion is reached.\<close>

theorem missing_del_raises_witness:
  "fst (markTokenAsUsed deletions_due 1000 ''T1'' None) = Inl del_error \<and>
   markTokenAsExpired deletions_due ''T1'' = (Inl del_error, deletions_due) \<and>
   validateWebSession deletions_due 1000 ''S1'' = (Inl del_error, deletions_due) \<and>
   fst (validateWebSession deletions_due 1000 ''S2'') = Inl del_error \<and>
   r_web_session (snd (validateWebSession deletions_due 1000 ''S2'')) = r_web_session deletions_due \<and>
   fst (revokeAdminTokens deletions_due 1000 7) = Inl del_error \<and>
   r_pending (snd (revokeAdminTokens deletions_due 1000 7)) = r_pending deletions_due \<and>
   fst (addTrackingNumber deletions_due 1 ''TN'' ''shipping'') = Inl del_error \<and>
   fst (addTrackingNumber deletions_due 1 ''TN'' ''purchase'') = Inl del_error \<and>
   r_order (snd (addTrackingNumber deletions_due 1 ''TN'' ''purchase'')) = r_order deletions_due"
  using missing_del_raises [where w = deletions_due and now = 1000 and token = "''T1''"
      and ip = None and sid = "''S1''" and sid' = "''S2''" and adminId = 7
      and v = "\<lparr>pv_truthy = True, pv_string = ''T1''\<rparr>"
      and oid = 1 and oid' = 1 and tn = "''TN''"
      and s = "\<lparr>sd_sessionId = ''S1'', sd_adminId = 7, sd_accessToken = ''A1'',
               sd_refreshToken = ''R1'', sd_expiresAt = 100, sd_createdAt = 0,
               sd_lastActivity = 50, sd_ipAddress = None, sd_userAgent = None\<rparr>"
      and s' = "\<lparr>sd_sessionId = ''S2'', sd_adminId = 8, sd_accessToken = ''A2'',
               sd_refreshToken = ''R2'', sd_expiresAt = 900000, sd_createdAt = 0,
               sd_lastActivity = 50, sd_ipAddress = None, sd_userAgent = None\<rparr>"]
  by (simp add: deletions_due_def get_def show_nat_7 parcel_created_rows purchase_created_rows
        parcel_created_def createShippingOrder_def shippingOrder_create_def
        createStatusHistory_def orderStatusHistory_create_def cacheOrder_def world0_def Let_def)

section \<open>The total cost of a purchase order\<close>

text \<open>
  C10, as stated, fails: for a product price of \<open>0.1\<close> and a commission of \<open>0.2\<close>
  the stored \<open>totalCost\<close> is \<open>0.30000000000000004\<close>, which is not the sum of the
  two amounts.
\<close>

theorem totalCost_not_exact_sum:
  "finite_value (pd_productPrice small_purchase) = Some (3602879701896397 / 36028797018963968) \<and>
   finite_value (pd_commission small_purchase) = Some (3602879701896397 / 18014398509481984) \<and>
   map (\<lambda>row. finite_value (po_totalCost row))
     (db_purchaseOrder (snd (createPurchaseOrder world0 0 small_purchase))) =
     [Some (1351079888211149 / 4503599627370496)] \<and>
   (1351079888211149 / 4503599627370496 :: rat) \<noteq>
     3602879701896397 / 36028797018963968 + 3602879701896397 / 18014398509481984"
  by (simp add: small_purchase_def purchase_def world0_def order_defs finite_value_tenth
        finite_value_fifth finite_value_tenth_plus_fifth)

text \<open>
  C10, amended. \<open>createPurchaseOrder\<close> persists one new row, whose \<open>totalCost\<close> is
  the JavaScript sum \<open>productPrice + commission\<close>: for finite amounts the exact sum
  rounded to the nearest double, and so the exact sum whenever that is a double. The
  row keeps the \<open>quantity\<close> of the input, and another quantity gives the same
  \<open>totalCost\<close>.
\<close>

theorem purchase_totalCost:
  "\<exists>row. oo_row (fst (createPurchaseOrder w now d)) = PurchaseRow row \<and>
     db_purchaseOrder (snd (createPurchaseOrder w now d)) = db_purchaseOrder w @ [row] \<and>
     po_quantity row = pd_quantity d \<and>
     po_totalCost row = js_add (pd_productPrice d) (pd_commission d) \<and>
     (finite_value (pd_productPrice d) = Some p \<and> finite_value (pd_commission d) = Some c \<longrightarrow>
        po_totalCost row = number (p + c)) \<and>
     (finite_value (pd_productPrice d) = Some p \<and> finite_value (pd_commission d) = Some c \<and>
      rnd (p + c) = p + c \<and> \<bar>p + c\<bar> < huge \<longrightarrow>
        finite_value (po_totalCost row) = Some (p + c)) \<and>
     po_totalCost (last (db_purchaseOrder (snd (createPurchaseOrder w now (d\<lparr>pd_quantity := q\<rparr>)))))
       = po_totalCost row"
proof -
  have exact: "finite_value (number (p + c)) = Some (p + c)"
    if "rnd (p + c) = p + c" "\<bar>p + c\<bar> < huge"
    using that finite_value_number [of "p + c"] by simp
  show ?thesis
    by (auto simp add: order_defs finite_value_add exact)
qed

text \<open>Three items at 200 with a commission of 15 cost 215.\<close>

theorem purchase_totalCost_witness:
  "\<exists>row. db_purchaseOrder purchase_created = [row] \<and> po_quantity row = 3 \<and>
     po_totalCost row = number 215 \<and> finite_value (po_totalCost row) = Some 215"
  using purchase_totalCost [of world0 0 purchase 200 15 5]
    finite_value_of_int [of 200] finite_value_of_int [of 15] rnd_of_int [of 215]
    small_less_huge [of 215]
  by (auto simp add: purchase_created_def purchase_def world0_def order_defs)


section \<open>Dashboard tokens\<close>

lemmas token_defs = generateDashboardAccess_def generateDashboardAccess_at_def
  revokeAdminTokens_def
  adminDashboardToken_updateMany_def get_def adminDashboardToken_create_def setWithTTL_def
  validateDashboardToken_def lookupTokenData_def adminDashboardToken_findUnique_def Let_def

lemma issued_once_eq:
  "issued_once =
     world0\<lparr>db_adminDashboardToken :=
        [\<lparr>adt_adminId = 7, adt_token = ''T1'', adt_accessKey = ''K1'',
          adt_expiresAt = 900000, adt_isUsed = False, adt_createdAt = 0,
          adt_usedAt = None, adt_ipAddress = None\<rparr>],
      r_dashboard := [''admin:dashboard:T1'' \<mapsto>
        (\<lparr>td_adminId = 7, td_accessKey = ''K1'', td_expiresAt = 900000, td_isUsed = False,
          td_createdAt = 0, td_ipAddress = None\<rparr>, 900000)]\<rparr>"
  by (simp add: issued_once_def world0_def token_defs)

lemma issued_twice_eq:
  "issued_twice =
     world0\<lparr>db_adminDashboardToken :=
        [\<lparr>adt_adminId = 7, adt_token = ''T1'', adt_accessKey = ''K1'',
          adt_expiresAt = 900000, adt_isUsed = True, adt_createdAt = 0,
          adt_usedAt = Some 1000, adt_ipAddress = None\<rparr>,
         \<lparr>adt_adminId = 7, adt_token = ''T2'', adt_accessKey = ''K2'',
          adt_expiresAt = 901000, adt_isUsed = False, adt_createdAt = 1000,
          adt_usedAt = None, adt_ipAddress = None\<rparr>],
      r_dashboard := [''admin:dashboard:T1'' \<mapsto>
        (\<lparr>td_adminId = 7, td_accessKey = ''K1'', td_expiresAt = 900000, td_isUsed = False,
          td_createdAt = 0, td_ipAddress = None\<rparr>, 900000),
        ''admin:dashboard:T2'' \<mapsto>
        (\<lparr>td_adminId = 7, td_accessKey = ''K2'', td_expiresAt = 901000, td_isUsed = False,
          td_createdAt = 1000, td_ipAddress = None\<rparr>, 901000)]\<rparr>"
  by (simp add: issued_twice_def issued_once_eq world0_def token_defs)

lemma validated_eq: "validated = issued_once\<lparr>dbReads := 1\<rparr>"
  by (simp add: validated_def issued_once_eq world0_def token_defs)

lemma consumed_eq:
  "consumed =
     issued_once\<lparr>dbReads := 1, db_adminDashboardToken :=
        [\<lparr>adt_adminId = 7, adt_token = ''T1'', adt_accessKey = ''K1'',
          adt_expiresAt = 900000, adt_isUsed = True, adt_createdAt = 0,
          adt_usedAt = Some 2000, adt_ipAddress = None\<rparr>]\<rparr>"
  by (simp add: consumed_def markTokenAsUsed_raises validated_eq issued_once_eq world0_def
        adminDashboardToken_updateMany_def)

text \<open>
  C1. Admin 7 is issued token \<open>T1\<close> with key \<open>K1\<close>, then a second token.
  \<open>revokeAdminTokens\<close> marks \<open>T1\<close> used in the durable store, but looks for the
  cache mirror to delete under the key \<open>admin:pending:7\<close>, which nothing writes: the
  mirror of \<open>T1\<close> stays, unused, and \<open>validateDashboardToken\<close>, which reads the
  cache first, accepts \<open>T1\<close> with \<open>K1\<close> one second later.
\<close>

theorem revoked_token_still_valid:
  "fst (generateDashboardAccess world0 0 ''https://d'' ''K1'' ''T1'' 7 None) =
     Inr \<lparr>dashboardUrl = ''https://d/T1'', ada_accessKey = ''K1'', ada_expiresAt = 900000\<rparr> \<and>
   fst (generateDashboardAccess issued_once 1000 ''https://d'' ''K2'' ''T2'' 7 None) =
     Inr \<lparr>dashboardUrl = ''https://d/T2'', ada_accessKey = ''K2'', ada_expiresAt = 901000\<rparr> \<and>
   fst (validateDashboardToken issued_twice 2000 ''T1'' ''K1'') =
     Inr (Valid 7 (Some \<lparr>adt_adminId = 7, adt_token = ''T1'', adt_accessKey = ''K1'',
                          adt_expiresAt = 900000, adt_isUsed = True, adt_createdAt = 0,
                          adt_usedAt = Some 1000, adt_ipAddress = None\<rparr>))"
  by (simp add: issued_twice_eq issued_once_eq world0_def token_defs)

text \<open>
  C4. \<open>T1\<close> is validated and then consumed. \<open>markTokenAsUsed\<close> marks the row
  used and throws at the deletion of the cache mirror; the mirror stays, and the next
  \<open>validateDashboardToken\<close> with the right key accepts the token again.
\<close>

theorem consumed_token_still_valid:
  "fst (validateDashboardToken issued_once 1000 ''T1'' ''K1'') =
     Inr (Valid 7 (Some \<lparr>adt_adminId = 7, adt_token = ''T1'', adt_accessKey = ''K1'',
                          adt_expiresAt = 900000, adt_isUsed = False, adt_createdAt = 0,
                          adt_usedAt = None, adt_ipAddress = None\<rparr>)) \<and>
   fst (markTokenAsUsed validated 2000 ''T1'' None) = Inl del_error \<and>
   r_dashboard consumed = r_dashboard issued_once \<and>
   fst (validateDashboardToken consumed 3000 ''T1'' ''K1'') =
     Inr (Valid 7 (Some \<lparr>adt_adminId = 7, adt_token = ''T1'', adt_accessKey = ''K1'',
                          adt_expiresAt = 900000, adt_isUsed = True, adt_createdAt = 0,
                          adt_usedAt = Some 2000, adt_ipAddress = None\<rparr>))"
  by (simp add: consumed_eq markTokenAsUsed_raises issued_once_eq world0_def token_defs)

section \<open>Web sessions\<close>

lemma session_created_eq:
  "session_created =
     world0\<lparr>r_web_session := [''admin:web_session:S1'' \<mapsto>
        (\<lparr>sd_sessionId = ''S1'', sd_adminId = 7, sd_accessToken = ''A1'',
          sd_refreshToken = ''R1'', sd_expiresAt = 604800000, sd_createdAt = 0,
          sd_lastActivity = 0, sd_ipAddress = None, sd_userAgent = None\<rparr>, 604800000)],
      r_refresh := [''admin:refresh:R1'' \<mapsto> ((''S1'', 7), 2592000000)]\<rparr>"
  by (simp add: session_created_def createWebSession_def world0_def setWithTTL_def Let_def)

lemma session_refreshed_eq:
  "session_refreshed =
     session_created\<lparr>dbReads := 1, r_web_session := [''admin:web_session:S1'' \<mapsto>
        (\<lparr>sd_sessionId = ''S1'', sd_adminId = 7, sd_accessToken = ''A1'',
          sd_refreshToken = ''R1'', sd_expiresAt = 604800000, sd_createdAt = 0,
          sd_lastActivity = 518400000, sd_ipAddress = None, sd_userAgent = None\<rparr>,
         1123200000)]\<rparr>"
  by (simp add: session_refreshed_def session_created_eq validateWebSession_def world0_def
        get_def setWithTTL_def admin_findUnique_def Let_def)

text \<open>
  C7. A session validated on day six is held by the cache until day thirteen, while its
  \<open>expiresAt\<close> is day seven. \<open>validateWebSession\<close> on day eight throws at the
  deletion instead of returning \<open>{valid: false}\<close>, and the key stays; so does the
  call for a session of the inactive admin 8.
\<close>

theorem expired_session_raises:
  "fst (validateWebSession session_created 518400000 ''S1'') =
     Inr (Some (\<lparr>admin_id = 7, admin_isActive = True\<rparr>,
       \<lparr>sd_sessionId = ''S1'', sd_adminId = 7, sd_accessToken = ''A1'',
        sd_refreshToken = ''R1'', sd_expiresAt = 604800000, sd_createdAt = 0,
        sd_lastActivity = 518400000, sd_ipAddress = None, sd_userAgent = None\<rparr>)) \<and>
   validateWebSession session_refreshed 691200000 ''S1'' = (Inl del_error, session_refreshed) \<and>
   validateWebSession deletions_due 1000 ''S2'' =
     (Inl del_error, deletions_due\<lparr>dbReads := dbReads deletions_due + 1\<rparr>)"
  by (simp add: session_refreshed_eq session_created_eq validateWebSession_def world0_def
        get_def setWithTTL_def admin_findUnique_def del_raises deletions_due_def Let_def
        parcel_created_def order_defs)

section \<open>Expired tokens\<close>

lemma issued_slowly_eq:
  "issued_slowly =
     world0\<lparr>db_adminDashboardToken :=
        [\<lparr>adt_adminId = 7, adt_token = ''T1'', adt_accessKey = ''K1'',
          adt_expiresAt = 900000, adt_isUsed = False, adt_createdAt = 0,
          adt_usedAt = None, adt_ipAddress = None\<rparr>],
      r_dashboard := [''admin:dashboard:T1'' \<mapsto>
        (\<lparr>td_adminId = 7, td_accessKey = ''K1'', td_expiresAt = 900000, td_isUsed = False,
          td_createdAt = 5, td_ipAddress = None\<rparr>, 900005)]\<rparr>"
  by (simp add: issued_slowly_def world0_def token_defs)

text \<open>
  When the cache holds no mirror and the durable store holds the row, the object that
  the Prisma client returns carries an empty object as \<open>expiresAt\<close>, and the call of
  \<open>toISOString\<close> on it throws.
\<close>

lemma lookupTokenData_stored:
  assumes "get (r_dashboard w) now (''admin:dashboard:'' @ token) = None"
      and "find (\<lambda>t. adt_token t = token) (db_adminDashboardToken w) = Some row"
  shows "lookupTokenData w now token =
           (Inl (TypeError ''toISOString is not a function''), w\<lparr>dbReads := dbReads w + 1\<rparr>)"
  using assms
  by (simp add: lookupTokenData_def adminDashboardToken_findUnique_def token_object_def
        property_def toISOString_def Let_def)

lemma lookupTokenData_cached:
  assumes "get (r_dashboard w) now (''admin:dashboard:'' @ token) = Some td"
  shows "lookupTokenData w now token = (Inr (Some td), w)"
  using assms by (simp add: lookupTokenData_def)

text \<open>
  C5, as stated, fails: the row of \<open>T1\<close> is inserted at instant 0 and its mirror is
  stored five milliseconds later, so \<open>T1\<close> expires at 900000 and the cache holds the
  mirror until 900005. At 900002 a wrong key is refused with \<open>KeyMismatch\<close>, not with
  \<open>Expired\<close>, and the mirror is still found afterwards.
\<close>

theorem expired_token_wrong_key:
  "fst (generateDashboardAccess_at world0 0 5 ''https://d'' ''K1'' ''T1'' 7 None) =
     Inr \<lparr>dashboardUrl = ''https://d/T1'', ada_accessKey = ''K1'', ada_expiresAt = 900000\<rparr> \<and>
   map adt_expiresAt (db_adminDashboardToken issued_slowly) = [900000] \<and>
   map_option td_expiresAt (get (r_dashboard issued_slowly) 900002 ''admin:dashboard:T1'') =
     Some 900000 \<and>
   validateDashboardToken issued_slowly 900002 ''T1'' ''WRONG'' =
     (Inr (Invalid KeyMismatch), issued_slowly) \<and>
   fst (validateDashboardToken issued_slowly 900002 ''T1'' ''WRONG'') \<noteq> Inr (Invalid Expired) \<and>
   get (r_dashboard (snd (validateDashboardToken issued_slowly 900002 ''T1'' ''WRONG''))) 900003
     ''admin:dashboard:T1'' \<noteq> None"
  by (simp add: issued_slowly_eq world0_def token_defs)

text \<open>
  C5, amended. For a token that \<open>validateDashboardToken\<close> finds, as a mirror in the
  cache or else as a row of the durable store, with \<open>expiresAt\<close> in the past, the
  result is never \<open>valid: true\<close>. The key is checked before the expiry: while the
  cache holds the mirror, a wrong key is refused with \<open>KeyMismatch\<close> and the state,
  the mirror included, stays as it was.
\<close>

theorem expired_token_never_valid:
  "(get (r_dashboard w) now (''admin:dashboard:'' @ token) = Some td \<and> td_expiresAt td < now \<longrightarrow>
      (accessKey \<noteq> td_accessKey td \<longrightarrow>
         validateDashboardToken w now token accessKey = (Inr (Invalid KeyMismatch), w)) \<and>
      (\<forall>a r. fst (validateDashboardToken w now token accessKey) \<noteq> Inr (Valid a r))) \<and>
   (get (r_dashboard w) now (''admin:dashboard:'' @ token) = None \<and>
    find (\<lambda>t. adt_token t = token) (db_adminDashboardToken w) = Some row \<and>
    adt_expiresAt row < now \<longrightarrow>
      (\<forall>a r. fst (validateDashboardToken w now token accessKey) \<noteq> Inr (Valid a r)))"
proof -
  have cached: "(accessKey \<noteq> td_accessKey td \<longrightarrow>
         validateDashboardToken w now token accessKey = (Inr (Invalid KeyMismatch), w)) \<and>
      (\<forall>a r. fst (validateDashboardToken w now token accessKey) \<noteq> Inr (Valid a r))"
    if "get (r_dashboard w) now (''admin:dashboard:'' @ token) = Some td" "td_expiresAt td < now"
    using that(2)
    by (auto simp add: validateDashboardToken_def lookupTokenData_cached [OF that(1)]
          markTokenAsExpired_raises)
  have stored: "\<forall>a r. fst (validateDashboardToken w now token accessKey) \<noteq> Inr (Valid a r)"
    if "get (r_dashboard w) now (''admin:dashboard:'' @ token) = None"
       "find (\<lambda>t. adt_token t = token) (db_adminDashboardToken w) = Some row"
    by (simp add: validateDashboardToken_def lookupTokenData_stored [OF that])
  show ?thesis
    using cached stored by blast
qed

text \<open>
  \<open>T1\<close> at 900002, while the cache holds its mirror, with a wrong key and with the
  right one; and at 1000000, when only the row is left.
\<close>

theorem expired_token_never_valid_witness:
  "validateDashboardToken issued_slowly 900002 ''T1'' ''WRONG'' =
     (Inr (Invalid KeyMismatch), issued_slowly) \<and>
   fst (validateDashboardToken issued_slowly 900002 ''T1'' ''K1'') \<noteq>
     Inr (Valid 7 (find (\<lambda>t. adt_token t = ''T1'') (db_adminDashboardToken issued_slowly))) \<and>
   fst (validateDashboardToken issued_once 1000000 ''T1'' ''K1'') \<noteq>
     Inr (Valid 7 (find (\<lambda>t. adt_token t = ''T1'') (db_adminDashboardToken issued_once)))"
  using
    expired_token_never_valid [where w = issued_slowly and now = 900002 and token = "''T1''"
      and accessKey = "''WRONG''"
      and td = "\<lparr>td_adminId = 7, td_accessKey = ''K1'', td_expiresAt = 900000,
                 td_isUsed = False, td_createdAt = 5, td_ipAddress = None\<rparr>"]
    expired_token_never_valid [where w = issued_slowly and now = 900002 and token = "''T1''"
      and accessKey = "''K1''"
      and td = "\<lparr>td_adminId = 7, td_accessKey = ''K1'', td_expiresAt = 900000,
                 td_isUsed = False, td_createdAt = 5, td_ipAddress = None\<rparr>"]
    expired_token_never_valid [where w = issued_once and now = 1000000 and token = "''T1''"
      and accessKey = "''K1''"
      and row = "\<lparr>adt_adminId = 7, adt_token = ''T1'', adt_accessKey = ''K1'',
                  adt_expiresAt = 900000, adt_isUsed = False, adt_createdAt = 0,
                  adt_usedAt = None, adt_ipAddress = None\<rparr>"]
  by (auto simp add: issued_slowly_eq issued_once_eq world0_def get_def)


section \<open>Transactions and balances\<close>

lemma find_map_same_key:
  assumes "\<And>x. key (f x) = key x"
  shows "find (\<lambda>x. key x = k) (map (\<lambda>x. if key x = k then f x else x) xs) =
         map_option f (find (\<lambda>x. key x = k) xs)"
  by (induction xs) (simp_all add: assms)

lemma show_nat_Suc_0: "show_nat (Suc 0) = ''1''"
  by (simp add: show_nat.simps)

lemmas payment_defs = updateTransactionStatus_def transaction_update_def
  processCompletedTransaction_def updateUserBalance_def user_findUnique_def user_update_def
  del_raises Let_def

lemma payment_created_eq:
  "payment_created =
     world0\<lparr>db_transaction :=
        [\<lparr>tx_id = 1, tx_userId = 1, tx_orderId = None, tx_orderType = None, tx_amount = number 100,
          tx_type = PAYMENT, tx_status = T_PENDING, tx_description = None,
          tx_metadata = None, tx_createdAt = 0, tx_completedAt = None, tx_updatedAt = 0\<rparr>],
      transaction_seq := 1,
      r_transaction := [''transaction:1'' \<mapsto>
        (json_transaction \<lparr>tx_id = 1, tx_userId = 1, tx_orderId = None, tx_orderType = None, tx_amount = number 100,
          tx_type = PAYMENT, tx_status = T_PENDING, tx_description = None,
          tx_metadata = None, tx_createdAt = 0, tx_completedAt = None, tx_updatedAt = 0\<rparr>,
         1800000)]\<rparr>"
  by (simp add: payment_created_def createTransaction_def transaction_create_def payment100_def
        world0_def setWithTTL_def TTL_MEDIUM_def show_nat_Suc_0 Let_def)

lemma payment_completed_eq:
  "payment_completed =
     payment_created\<lparr>db_transaction :=
        [\<lparr>tx_id = 1, tx_userId = 1, tx_orderId = None, tx_orderType = None, tx_amount = number 100,
          tx_type = PAYMENT, tx_status = T_COMPLETED, tx_description = None,
          tx_metadata = None, tx_createdAt = 0, tx_completedAt = Some 1000,
          tx_updatedAt = 1000\<rparr>],
      dbReads := 1,
      db_user := [\<lparr>user_id = 1, user_telegramId = 100, user_balance = number 150\<rparr>]\<rparr>"
  by (simp add: payment_completed_def payment_created_eq world0_def payment_defs add_50_100)

lemma withdrawal_created_eq:
  "withdrawal_created =
     world0\<lparr>db_transaction :=
        [\<lparr>tx_id = 1, tx_userId = 1, tx_orderId = None, tx_orderType = None, tx_amount = number 80,
          tx_type = WITHDRAWAL, tx_status = T_PENDING, tx_description = None,
          tx_metadata = None, tx_createdAt = 0, tx_completedAt = None, tx_updatedAt = 0\<rparr>],
      transaction_seq := 1,
      r_transaction := [''transaction:1'' \<mapsto>
        (json_transaction \<lparr>tx_id = 1, tx_userId = 1, tx_orderId = None, tx_orderType = None, tx_amount = number 80,
          tx_type = WITHDRAWAL, tx_status = T_PENDING, tx_description = None,
          tx_metadata = None, tx_createdAt = 0, tx_completedAt = None, tx_updatedAt = 0\<rparr>,
         1800000)]\<rparr>"
  by (simp add: withdrawal_created_def createTransaction_def transaction_create_def
        withdrawal80_def payment100_def world0_def setWithTTL_def TTL_MEDIUM_def show_nat_Suc_0
        Let_def)

lemma withdrawal30_created_eq:
  "withdrawal30_created =
     world0\<lparr>db_transaction :=
        [\<lparr>tx_id = 1, tx_userId = 1, tx_orderId = None, tx_orderType = None,
          tx_amount = number 30, tx_type = WITHDRAWAL, tx_status = T_PENDING,
          tx_description = None, tx_metadata = None, tx_createdAt = 0, tx_completedAt = None,
          tx_updatedAt = 0\<rparr>],
      transaction_seq := 1,
      r_transaction := [''transaction:1'' \<mapsto>
        (json_transaction \<lparr>tx_id = 1, tx_userId = 1, tx_orderId = None, tx_orderType = None,
          tx_amount = number 30, tx_type = WITHDRAWAL, tx_status = T_PENDING,
          tx_description = None, tx_metadata = None, tx_createdAt = 0, tx_completedAt = None,
          tx_updatedAt = 0\<rparr>,
         1800000)]\<rparr>"
  by (simp add: withdrawal30_created_def createTransaction_def transaction_create_def
        withdrawal30_def payment100_def world0_def setWithTTL_def TTL_MEDIUM_def show_nat_Suc_0
        Let_def)

text \<open>
  C2, as stated, fails: a payment of 100 for a user with balance 50 is completed
  (balance 150, status \<open>COMPLETED\<close>), and the same call again on the completed
  transaction brings the balance to 250.
\<close>

theorem replay_applies_twice:
  "map tx_status (db_transaction payment_created) = [T_PENDING] \<and>
   map user_balance (db_user payment_created) = [number 50] \<and>
   map tx_status (db_transaction payment_completed) = [T_COMPLETED] \<and>
   map user_balance (db_user payment_completed) = [number 150] \<and>
   map tx_status (db_transaction payment_replayed) = [T_COMPLETED] \<and>
   map user_balance (db_user payment_replayed) = [number 250]"
  by (simp add: payment_replayed_def payment_completed_eq payment_created_eq world0_def
        payment_defs add_150_100)

text \<open>
  C2, amended. \<open>updateTransactionStatus\<close> changes the owner's stored balance only
  when the new status is \<open>COMPLETED\<close>, and then applies the amount of the
  transaction once per call, whatever status the transaction had before: the balance
  becomes the JavaScript sum of balance and amount for a payment, refund or bonus, and
  the JavaScript difference for a withdrawal that the balance covers. The stored
  transaction is \<open>COMPLETED\<close> afterwards with the same type, owner and amount, so a
  second such call applies the amount again.
\<close>

theorem completion_applies_amount:
  assumes tx: "find (\<lambda>t. tx_id t = tid) (db_transaction w) = Some t"
      and owner: "find (\<lambda>u. user_id u = tx_userId t) (db_user w) = Some u"
      and funds: "tx_type t = WITHDRAWAL \<longrightarrow> tx_amount t \<le> user_balance u"
  shows "find (\<lambda>u. user_id u = tx_userId t)
           (db_user (snd (updateTransactionStatus w now tid T_COMPLETED md))) =
         Some (u\<lparr>user_balance :=
                 (if tx_type t \<in> {PAYMENT, REFUND, BONUS}
                  then js_add (user_balance u) (tx_amount t)
                  else if tx_type t = WITHDRAWAL then js_sub (user_balance u) (tx_amount t)
                  else user_balance u)\<rparr>) \<and>
         (\<exists>t'. find (\<lambda>t. tx_id t = tid)
                  (db_transaction (snd (updateTransactionStatus w now tid T_COMPLETED md))) = Some t' \<and>
               tx_status t' = T_COMPLETED \<and> tx_type t' = tx_type t \<and>
               tx_userId t' = tx_userId t \<and> tx_amount t' = tx_amount t) \<and>
         (status \<noteq> T_COMPLETED \<longrightarrow>
            db_user (snd (updateTransactionStatus w now tid status md)) = db_user w)"
proof -
  have other: "db_user (snd (updateTransactionStatus w now tid status md)) = db_user w"
    if "status \<noteq> T_COMPLETED"
    using that tx by (simp add: payment_defs)
  have stored: "\<exists>t'. find (\<lambda>t. tx_id t = tid)
                  (db_transaction (snd (updateTransactionStatus w now tid T_COMPLETED md))) = Some t' \<and>
               tx_status t' = T_COMPLETED \<and> tx_type t' = tx_type t \<and>
               tx_userId t' = tx_userId t \<and> tx_amount t' = tx_amount t"
    using tx owner
    by (cases "tx_type t")
       (auto simp add: payment_defs find_map_same_key [where key = tx_id])
  have bal: "find (\<lambda>u. user_id u = tx_userId t)
           (db_user (snd (updateTransactionStatus w now tid T_COMPLETED md))) =
         Some (u\<lparr>user_balance :=
                 (if tx_type t \<in> {PAYMENT, REFUND, BONUS}
                  then js_add (user_balance u) (tx_amount t)
                  else if tx_type t = WITHDRAWAL then js_sub (user_balance u) (tx_amount t)
                  else user_balance u)\<rparr>)"
    using tx owner funds le_imp_sub_not_negative [of "tx_amount t" "user_balance u"]
    by (cases "tx_type t")
       (auto simp add: payment_defs find_map_same_key [where key = user_id])
  show ?thesis using other stored bal by blast
qed

text \<open>
  The payment of 100, completed from \<open>PENDING\<close> and again from \<open>COMPLETED\<close>; the
  withdrawal of 30, completed; and the payment, failed.
\<close>

theorem completion_applies_amount_witness:
  "find (\<lambda>u. user_id u = 1)
     (db_user (snd (updateTransactionStatus payment_created 1000 1 T_COMPLETED None))) =
     Some \<lparr>user_id = 1, user_telegramId = 100, user_balance = number 150\<rparr> \<and>
   find (\<lambda>u. user_id u = 1)
     (db_user (snd (updateTransactionStatus payment_completed 2000 1 T_COMPLETED None))) =
     Some \<lparr>user_id = 1, user_telegramId = 100, user_balance = number 250\<rparr> \<and>
   find (\<lambda>u. user_id u = 1)
     (db_user (snd (updateTransactionStatus withdrawal30_created 1000 1 T_COMPLETED None))) =
     Some \<lparr>user_id = 1, user_telegramId = 100, user_balance = number 20\<rparr> \<and>
   db_user (snd (updateTransactionStatus payment_created 1000 1 T_FAILED None)) =
     db_user payment_created"
  using
    completion_applies_amount [where w = payment_created and tid = 1 and now = 1000
      and md = None and status = T_FAILED
      and u = "\<lparr>user_id = 1, user_telegramId = 100, user_balance = number 50\<rparr>"
      and t = "\<lparr>tx_id = 1, tx_userId = 1, tx_orderId = None, tx_orderType = None,
                tx_amount = number 100, tx_type = PAYMENT, tx_status = T_PENDING,
                tx_description = None, tx_metadata = None, tx_createdAt = 0,
                tx_completedAt = None, tx_updatedAt = 0\<rparr>"]
    completion_applies_amount [where w = payment_completed and tid = 1 and now = 2000
      and md = None and status = T_FAILED
      and u = "\<lparr>user_id = 1, user_telegramId = 100, user_balance = number 150\<rparr>"
      and t = "\<lparr>tx_id = 1, tx_userId = 1, tx_orderId = None, tx_orderType = None,
                tx_amount = number 100, tx_type = PAYMENT, tx_status = T_COMPLETED,
                tx_description = None, tx_metadata = None, tx_createdAt = 0,
                tx_completedAt = Some 1000, tx_updatedAt = 1000\<rparr>"]
    completion_applies_amount [where w = withdrawal30_created and tid = 1 and now = 1000
      and md = None and status = T_FAILED
      and u = "\<lparr>user_id = 1, user_telegramId = 100, user_balance = number 50\<rparr>"
      and t = "\<lparr>tx_id = 1, tx_userId = 1, tx_orderId = None, tx_orderType = None,
                tx_amount = number 30, tx_type = WITHDRAWAL, tx_status = T_PENDING,
                tx_description = None, tx_metadata = None, tx_createdAt = 0,
                tx_completedAt = None, tx_updatedAt = 0\<rparr>"]
  by (simp add: payment_completed_eq payment_created_eq withdrawal30_created_eq world0_def
        add_50_100 add_150_100 sub_50_30 le_30_50)

text \<open>
  C3, as stated, fails: a withdrawal of 80 against a balance of 50 is rejected, but the
  transaction row, \<open>PENDING\<close> before the call, is stored as \<open>COMPLETED\<close> when the
  error is raised.
\<close>

theorem rejected_withdrawal_keeps_status:
  "map user_balance (db_user withdrawal_created) = [number 50] \<and>
   map tx_amount (db_transaction withdrawal_created) = [number 80] \<and>
   map tx_status (db_transaction withdrawal_created) = [T_PENDING] \<and>
   fst (updateTransactionStatus withdrawal_created 1000 1 T_COMPLETED None) =
     Inl (Error ''Insufficient balance'') \<and>
   map tx_status
     (db_transaction (snd (updateTransactionStatus withdrawal_created 1000 1 T_COMPLETED None))) =
     [T_COMPLETED]"
  by (simp add: withdrawal_created_eq world0_def payment_defs sub_50_80_negative)

text \<open>
  C3, amended. Completing a withdrawal whose amount exceeds the owner's balance throws
  the error \<open>Insufficient balance\<close> and leaves every balance as it was; the
  transaction row, written before the balance is looked at, is by then stored with
  status \<open>COMPLETED\<close> and its completion instant.
\<close>

theorem overdrawn_withdrawal_rejected:
  assumes tx: "find (\<lambda>t. tx_id t = tid) (db_transaction w) = Some t"
      and wd: "tx_type t = WITHDRAWAL"
      and owner: "find (\<lambda>u. user_id u = tx_userId t) (db_user w) = Some u"
      and over: "user_balance u < tx_amount t"
  shows "fst (updateTransactionStatus w now tid T_COMPLETED md) =
           Inl (Error ''Insufficient balance'') \<and>
         db_user (snd (updateTransactionStatus w now tid T_COMPLETED md)) = db_user w \<and>
         find (\<lambda>t. tx_id t = tid)
           (db_transaction (snd (updateTransactionStatus w now tid T_COMPLETED md))) =
           Some (t\<lparr>tx_status := T_COMPLETED, tx_updatedAt := now, tx_completedAt := Some now,
                   tx_metadata := (case md of None \<Rightarrow> tx_metadata t | Some m \<Rightarrow> Some m)\<rparr>)"
  using assms less_imp_sub_negative [OF over]
  by (simp add: payment_defs find_map_same_key [where key = tx_id])

text \<open>The withdrawal of 80 against the balance of 50.\<close>

theorem overdrawn_withdrawal_rejected_witness:
  "fst (updateTransactionStatus withdrawal_created 1000 1 T_COMPLETED None) =
     Inl (Error ''Insufficient balance'') \<and>
   db_user (snd (updateTransactionStatus withdrawal_created 1000 1 T_COMPLETED None)) =
     [\<lparr>user_id = 1, user_telegramId = 100, user_balance = number 50\<rparr>] \<and>
   map_option tx_status (find (\<lambda>t. tx_id t = 1)
     (db_transaction (snd (updateTransactionStatus withdrawal_created 1000 1 T_COMPLETED None)))) =
     Some T_COMPLETED"
  using
    overdrawn_withdrawal_rejected [where w = withdrawal_created and tid = 1 and now = 1000
      and md = None
      and u = "\<lparr>user_id = 1, user_telegramId = 100, user_balance = number 50\<rparr>"
      and t = "\<lparr>tx_id = 1, tx_userId = 1, tx_orderId = None, tx_orderType = None,
                tx_amount = number 80, tx_type = WITHDRAWAL, tx_status = T_PENDING,
                tx_description = None, tx_metadata = None, tx_createdAt = 0,
                tx_completedAt = None, tx_updatedAt = 0\<rparr>"]
  by (simp add: withdrawal_created_eq world0_def less_50_80)



section \<open>The status history of an order\<close>

lemma chained_append:
  "chained (hs @ [h]) \<longleftrightarrow> chained hs \<and> (hs \<noteq> [] \<longrightarrow> h_oldStatus h = Some (h_newStatus (last hs)))"
  by (induction hs rule: chained.induct) auto

lemma chained_nth:
  "chained hs \<Longrightarrow> Suc i < length hs \<Longrightarrow> h_oldStatus (hs ! Suc i) = Some (h_newStatus (hs ! i))"
proof (induction hs arbitrary: i rule: chained.induct)
  case (3 h h' hs)
  then show ?case by (cases i) auto
qed simp_all

lemma find_above_all:
  "list_all (\<lambda>r. key r \<le> n) rs \<Longrightarrow> find (\<lambda>r. key r = Suc n) rs = None"
  by (induction rs) auto

lemma filter_above_all:
  "list_all (\<lambda>h. (h_orderType h = ty \<longrightarrow> h_orderId h \<le> n)) hs \<Longrightarrow>
   filter (\<lambda>h. h_orderId h = Suc n \<and> h_orderType h = ty) hs = []"
  by (induction hs) auto

lemma find_append_None: "find P xs = None \<Longrightarrow> find P (xs @ ys) = find P ys"
  by (induction xs) auto

lemmas create_defs = createShippingOrder_def createPurchaseOrder_def shippingOrder_create_def
  purchaseOrder_create_def createStatusHistory_def orderStatusHistory_create_def cacheOrder_def
  setWithTTL_def json_order_def Let_def

text \<open>
  \<open>create\<close> hands out the next identifier and leaves a sound trail of one row;
  every \<open>transition\<close> on an order with a sound trail succeeds, keeps the trail sound
  and appends one row. The old status that a transition records comes from the cache
  when the cache holds the order, which is why the trail speaks of the cache.
\<close>

lemma createShippingOrder_trail:
  assumes "ids_below_seq w"
  shows "row_id (oo_row (fst (createShippingOrder w now d))) = Suc (shippingOrder_seq w)"
    and "shipping_trail (snd (createShippingOrder w now d)) (Suc (shippingOrder_seq w))"
    and "length (statusHistory_of (snd (createShippingOrder w now d))
           (Suc (shippingOrder_seq w)) ''shipping'') = 1"
proof -
  have a: "find (\<lambda>r. so_id r = Suc (shippingOrder_seq w)) (db_shippingOrder w) = None"
    using assms by (simp add: ids_below_seq_def find_above_all [where key = so_id])
  have "list_all (\<lambda>h. h_orderType h = ''shipping'' \<longrightarrow> h_orderId h \<le> shippingOrder_seq w)
          (db_orderStatusHistory w)"
    using assms by (simp add: ids_below_seq_def list_all_iff)
  then have b: "filter (\<lambda>h. h_orderId h = Suc (shippingOrder_seq w) \<and> h_orderType h = ''shipping'')
          (db_orderStatusHistory w) = []"
    by (rule filter_above_all)
  show "row_id (oo_row (fst (createShippingOrder w now d))) = Suc (shippingOrder_seq w)"
    by (simp add: create_defs)
  show "shipping_trail (snd (createShippingOrder w now d)) (Suc (shippingOrder_seq w))"
    by (simp add: create_defs shipping_trail_def statusHistory_of_def find_append_None [OF a] b)
  show "length (statusHistory_of (snd (createShippingOrder w now d))
           (Suc (shippingOrder_seq w)) ''shipping'') = 1"
    by (simp add: create_defs statusHistory_of_def b)
qed

lemma updateShippingOrderStatus_trail:
  assumes "shipping_trail w oid"
  shows "\<exists>ou w'. updateShippingOrderStatus w now oid st c a = (Inr ou, w') \<and>
           shipping_trail w' oid \<and>
           length (statusHistory_of w' oid ''shipping'') =
             Suc (length (statusHistory_of w oid ''shipping''))"
proof -
  obtain row where row: "find (\<lambda>r. so_id r = oid) (db_shippingOrder w) = Some row"
    using assms by (auto simp add: shipping_trail_def split: option.splits)
  let ?hs = "statusHistory_of w oid ''shipping''"
  have hs: "?hs \<noteq> []" "h_oldStatus (hd ?hs) = None" "h_newStatus (hd ?hs) = ''CREATED''"
    "chained ?hs" "h_newStatus (last ?hs) = OrderStatus_str (so_status row)"
    using assms row by (simp_all add: shipping_trail_def Let_def)
  have cache: "row_status (oo_row cached) = OrderStatus_str (so_status row)"
    if "getCachedOrder w now oid ''shipping'' = Some cached" for cached
    using that assms row
    by (auto simp add: shipping_trail_def Let_def getCachedOrder_def get_def
          split: option.splits if_splits)
  obtain cur w1 where
    cur: "getShippingOrder w now oid = (Some cur, w1)"
      "row_status (oo_row cur) = OrderStatus_str (so_status row)"
      "db_shippingOrder w1 = db_shippingOrder w"
      "db_orderStatusHistory w1 = db_orderStatusHistory w"
    using row cache
    by (cases "getCachedOrder w now oid ''shipping''")
       (auto simp add: getShippingOrder_def shippingOrder_findUnique_def cacheOrder_def)
  have hs1: "statusHistory_of w1 oid ''shipping'' = ?hs"
    by (simp add: statusHistory_of_def cur)
  show ?thesis
    using row hs hs1 cur
    by (simp add: updateShippingOrderStatus_def shippingOrder_update_def
          createStatusHistory_def orderStatusHistory_create_def cacheOrder_def setWithTTL_def
          json_order_def shipping_trail_def statusHistory_of_def chained_append
          find_map_same_key [where key = so_id] Let_def)
qed

lemma shippingTransitions_trail:
  "shipping_trail w oid \<Longrightarrow>
   \<exists>w'. shippingTransitions w oid calls = Some w' \<and> shipping_trail w' oid \<and>
     length (statusHistory_of w' oid ''shipping'') =
       length (statusHistory_of w oid ''shipping'') + length calls"
proof (induction calls arbitrary: w)
  case Nil
  then show ?case by simp
next
  case (Cons call calls)
  obtain now st c a where call: "call = (now, st, c, a)"
    by (cases call) auto
  obtain ou w1 where step: "updateShippingOrderStatus w now oid st c a = (Inr ou, w1)"
    "shipping_trail w1 oid"
    "length (statusHistory_of w1 oid ''shipping'') = Suc (length (statusHistory_of w oid ''shipping''))"
    using updateShippingOrderStatus_trail [OF Cons.prems] by blast
  from Cons.IH [OF step(2)] show ?case
    using step by (auto simp add: call)
qed

lemma createPurchaseOrder_trail:
  assumes "ids_below_seq w"
  shows "row_id (oo_row (fst (createPurchaseOrder w now d))) = Suc (purchaseOrder_seq w)"
    and "purchase_trail (snd (createPurchaseOrder w now d)) (Suc (purchaseOrder_seq w))"
    and "length (statusHistory_of (snd (createPurchaseOrder w now d))
           (Suc (purchaseOrder_seq w)) ''purchase'') = 1"
proof -
  have a: "find (\<lambda>r. po_id r = Suc (purchaseOrder_seq w)) (db_purchaseOrder w) = None"
    using assms by (simp add: ids_below_seq_def find_above_all [where key = po_id])
  have "list_all (\<lambda>h. h_orderType h = ''purchase'' \<longrightarrow> h_orderId h \<le> purchaseOrder_seq w)
          (db_orderStatusHistory w)"
    using assms by (simp add: ids_below_seq_def list_all_iff)
  then have b: "filter (\<lambda>h. h_orderId h = Suc (purchaseOrder_seq w) \<and> h_orderType h = ''purchase'')
          (db_orderStatusHistory w) = []"
    by (rule filter_above_all)
  show "row_id (oo_row (fst (createPurchaseOrder w now d))) = Suc (purchaseOrder_seq w)"
    by (simp add: create_defs)
  show "purchase_trail (snd (createPurchaseOrder w now d)) (Suc (purchaseOrder_seq w))"
    by (simp add: create_defs purchase_trail_def statusHistory_of_def find_append_None [OF a] b)
  show "length (statusHistory_of (snd (createPurchaseOrder w now d))
           (Suc (purchaseOrder_seq w)) ''purchase'') = 1"
    by (simp add: create_defs statusHistory_of_def b)
qed

lemma updatePurchaseOrderStatus_trail:
  assumes "purchase_trail w oid"
  shows "\<exists>ou w'. updatePurchaseOrderStatus w now oid st c a = (Inr ou, w') \<and>
           purchase_trail w' oid \<and>
           length (statusHistory_of w' oid ''purchase'') =
             Suc (length (statusHistory_of w oid ''purchase''))"
proof -
  obtain row where row: "find (\<lambda>r. po_id r = oid) (db_purchaseOrder w) = Some row"
    using assms by (auto simp add: purchase_trail_def split: option.splits)
  let ?hs = "statusHistory_of w oid ''purchase''"
  have hs: "?hs \<noteq> []" "h_oldStatus (hd ?hs) = None" "h_newStatus (hd ?hs) = ''CREATED''"
    "chained ?hs" "h_newStatus (last ?hs) =PurchaseOrderStatus_str (po_status row)"
    using assms row by (simp_all add: purchase_trail_def Let_def)
  have cache: "row_status (oo_row cached) =PurchaseOrderStatus_str (po_status row)"
    if "getCachedOrder w now oid ''purchase'' = Some cached" for cached
    using that assms row
    by (auto simp add: purchase_trail_def Let_def getCachedOrder_def get_def
          split: option.splits if_splits)
  obtain cur w1 where
    cur: "getPurchaseOrder w now oid = (Some cur, w1)"
      "row_status (oo_row cur) =PurchaseOrderStatus_str (po_status row)"
      "db_purchaseOrder w1 = db_purchaseOrder w"
      "db_orderStatusHistory w1 = db_orderStatusHistory w"
    using row cache
    by (cases "getCachedOrder w now oid ''purchase''")
       (auto simp add: getPurchaseOrder_def purchaseOrder_findUnique_def cacheOrder_def)
  have hs1: "statusHistory_of w1 oid ''purchase'' = ?hs"
    by (simp add: statusHistory_of_def cur)
  show ?thesis
    using row hs hs1 cur
    by (simp add: updatePurchaseOrderStatus_def purchaseOrder_update_def
          createStatusHistory_def orderStatusHistory_create_def cacheOrder_def setWithTTL_def
          json_order_def purchase_trail_def statusHistory_of_def chained_append
          find_map_same_key [where key = po_id] Let_def)
qed

lemma purchaseTransitions_trail:
  "purchase_trail w oid \<Longrightarrow>
   \<exists>w'. purchaseTransitions w oid calls = Some w' \<and> purchase_trail w' oid \<and>
     length (statusHistory_of w' oid ''purchase'') =
       length (statusHistory_of w oid ''purchase'') + length calls"
proof (induction calls arbitrary: w)
  case Nil
  then show ?case by simp
next
  case (Cons call calls)
  obtain now st c a where call: "call = (now, st, c, a)"
    by (cases call) auto
  obtain ou w1 where step: "updatePurchaseOrderStatus w now oid st c a = (Inr ou, w1)"
    "purchase_trail w1 oid"
    "length (statusHistory_of w1 oid ''purchase'') = Suc (length (statusHistory_of w oid ''purchase''))"
    using updatePurchaseOrderStatus_trail [OF Cons.prems] by blast
  from Cons.IH [OF step(2)] show ?case
    using step by (auto simp add: call)
qed


text \<open>
  C6. In a store whose identifiers lie below the counters, an order (shipping or
  purchase) is created and then any \<open>N\<close> transitions are applied to it. Every
  transition succeeds, and the history then holds \<open>N + 1\<close> rows for the order: the
  first has no old status and the new status \<open>CREATED\<close>, and each later row has as
  old status the new status of the row before it.
\<close>

theorem history_rows_chain:
  assumes "ids_below_seq w"
  shows
    "(\<exists>w'. shippingTransitions (snd (createShippingOrder w now d))
             (row_id (oo_row (fst (createShippingOrder w now d)))) calls = Some w' \<and>
        (let hs = statusHistory_of w' (row_id (oo_row (fst (createShippingOrder w now d))))
                    ''shipping''
         in length hs = length calls + 1 \<and>
            h_oldStatus (hd hs) = None \<and> h_newStatus (hd hs) = ''CREATED'' \<and>
            (\<forall>i. Suc i < length hs \<longrightarrow>
               h_oldStatus (hs ! Suc i) = Some (h_newStatus (hs ! i))))) \<and>
     (\<exists>w'. purchaseTransitions (snd (createPurchaseOrder w now' d'))
             (row_id (oo_row (fst (createPurchaseOrder w now' d')))) calls' = Some w' \<and>
        (let hs = statusHistory_of w' (row_id (oo_row (fst (createPurchaseOrder w now' d'))))
                    ''purchase''
         in length hs = length calls' + 1 \<and>
            h_oldStatus (hd hs) = None \<and> h_newStatus (hd hs) = ''CREATED'' \<and>
            (\<forall>i. Suc i < length hs \<longrightarrow>
               h_oldStatus (hs ! Suc i) = Some (h_newStatus (hs ! i)))))"
proof -
  let ?s = "Suc (shippingOrder_seq w)" and ?p = "Suc (purchaseOrder_seq w)"
  obtain ws where ws: "shippingTransitions (snd (createShippingOrder w now d)) ?s calls = Some ws"
      "shipping_trail ws ?s"
      "length (statusHistory_of ws ?s ''shipping'') = 1 + length calls"
    using shippingTransitions_trail [OF createShippingOrder_trail(2) [OF assms]]
      createShippingOrder_trail(3) [OF assms]
    by metis
  obtain wp where wp: "purchaseTransitions (snd (createPurchaseOrder w now' d')) ?p calls' = Some wp"
      "purchase_trail wp ?p"
      "length (statusHistory_of wp ?p ''purchase'') = 1 + length calls'"
    using purchaseTransitions_trail [OF createPurchaseOrder_trail(2) [OF assms]]
      createPurchaseOrder_trail(3) [OF assms]
    by metis
  have s: "h_oldStatus (hd (statusHistory_of ws ?s ''shipping'')) = None"
      "h_newStatus (hd (statusHistory_of ws ?s ''shipping'')) = ''CREATED''"
      "chained (statusHistory_of ws ?s ''shipping'')"
    using ws(2) by (auto simp add: shipping_trail_def Let_def split: option.splits)
  have p: "h_oldStatus (hd (statusHistory_of wp ?p ''purchase'')) = None"
      "h_newStatus (hd (statusHistory_of wp ?p ''purchase'')) = ''CREATED''"
      "chained (statusHistory_of wp ?p ''purchase'')"
    using wp(2) by (auto simp add: purchase_trail_def Let_def split: option.splits)
  show ?thesis
    using ws(1,3) wp(1,3) s p
    by (simp add: createShippingOrder_trail(1) [OF assms] createPurchaseOrder_trail(1) [OF assms]
          Let_def chained_nth)
qed


lemma ids_below_seq_world0: "ids_below_seq world0"
  by (simp add: ids_below_seq_def world0_def)

lemmas run_defs = updateShippingOrderStatus_def updatePurchaseOrderStatus_def
  getShippingOrder_def getPurchaseOrder_def getCachedOrder_def get_def
  shippingOrder_findUnique_def purchaseOrder_findUnique_def shippingOrder_update_def
  purchaseOrder_update_def statusHistory_of_def transactions_of_def json_order_def

text \<open>
  The scenario of the spec, continued by one more transition, and a purchase with one
  transition.
\<close>

theorem history_rows_chain_witness:
  "ids_below_seq world0 \<and>
   (\<exists>w'. shippingTransitions (snd (createShippingOrder world0 0 parcel)) 1
            [(1000, PAID, Some ''paid by card'', None), (2000, SHIPPED, None, Some 7)] = Some w' \<and>
      map (\<lambda>h. (h_oldStatus h, h_newStatus h, h_comment h)) (statusHistory_of w' 1 ''shipping'') =
        [(None, ''CREATED'', Some SHIPPING_CREATED_COMMENT),
         (Some ''CREATED'', ''PAID'', Some ''paid by card''),
         (Some ''PAID'', ''SHIPPED'', None)]) \<and>
   (\<exists>w'. purchaseTransitions (snd (createPurchaseOrder world0 0 purchase)) 1
            [(1000, P_PAID, None, None)] = Some w' \<and>
      map (\<lambda>h. (h_oldStatus h, h_newStatus h)) (statusHistory_of w' 1 ''purchase'') =
        [(None, ''CREATED''), (Some ''CREATED'', ''PAID'')])"
  using history_rows_chain [OF ids_below_seq_world0, where now = 0 and d = parcel
      and calls = "[(1000, PAID, Some ''paid by card'', None), (2000, SHIPPED, None, Some 7)]"
      and now' = 0 and d' = purchase and calls' = "[(1000, P_PAID, None, None)]"]
  by (simp add: ids_below_seq_world0)
     (simp add: world0_def parcel_def purchase_def order_defs run_defs show_nat_Suc_0)


section \<open>Reading an order twice\<close>






end
